theory Spec2Isabelle
  imports Complex_Main
begin

section \<open>Entity model: the EventKit objects the helper reads and writes\<close>

text \<open>
  The Swift helper works on EventKit objects. Only the properties the helper touches are
  modelled. A \<open>Date\<close> is an opaque instant. \<open>DateComponents\<close> are produced from a \<open>Date\<close>
  by the calendar and read back the same way, so the instant itself stands for them. A
  \<open>Double\<close> is never computed with; what matters is whether it is finite, since the JSON
  encoder refuses the values that are not.
\<close>

type_synonym Date = int
type_synonym DateComponents = Date

datatype Double = Finite real | PlusInfinity | MinusInfinity | NaN

record CLLocation =
  latitude :: Double
  longitude :: Double

record EKStructuredLocation =
  loc_title :: "string option"
  geoLocation :: "CLLocation option"
  radius :: Double

datatype EKAlarmProximity = ProximityNone | ProximityEnter | ProximityLeave

record EKAlarm =
  absoluteDate :: "Date option"
  structuredLocation :: "EKStructuredLocation option"
  proximity :: EKAlarmProximity

datatype EKRecurrenceFrequency = Daily | Weekly | Monthly | Yearly

record EKRecurrenceEnd =
  end_endDate :: "Date option"
  occurrenceCount :: int

record EKRecurrenceRule =
  rule_frequency :: EKRecurrenceFrequency
  rule_interval :: int
  recurrenceEnd :: "EKRecurrenceEnd option"
  daysOfTheWeek :: "int list option"

record EKCalendar =
  calendarIdentifier :: nat
  cal_title :: string

text \<open>
  \<open>calendar\<close> holds the identifier of the list the reminder belongs to. \<open>title\<close> is an
  implicitly unwrapped optional in EventKit, \<open>alarms\<close> and \<open>recurrenceRules\<close> are optional
  arrays: the helper tests all three for nil.
\<close>

record EKReminder =
  calendarItemIdentifier :: nat
  calendar :: nat
  title :: "string option"
  reminder_notes :: "string option"
  isCompleted :: bool
  dueDateComponents :: "DateComponents option"
  priority :: int
  alarms :: "EKAlarm list option"
  recurrenceRules :: "EKRecurrenceRule list option"

text \<open>
  The store. Besides its content it carries what the operating system answers to the calls
  the helper cannot decide itself: whether access is granted, whether a fetch hands back
  nil, and the error a save throws (if any).
\<close>

record EKEventStore =
  accessGranted :: bool
  calendars :: "EKCalendar list"
  reminders :: "EKReminder list"
  fetchReturnsNil :: bool
  saveError :: "string option"

text \<open>The static date formatter of \<open>EventKitManager\<close>, as its two methods.\<close>

record DateFormatter =
  date_from :: "string \<Rightarrow> Date option"
  string_from :: "Date \<Rightarrow> string"

datatype RemindersError =
    AccessDenied
  | ListNotFound string
  | ReminderNotFound string
  | FetchFailed
  | SaveFailed string
  | InvalidDate string


section \<open>Output models (Models.swift)\<close>

text \<open>
  The message texts of the helper are Japanese sentences with the arguments spliced in.
  Each sentence is one constructor here, carrying the spliced arguments.
\<close>

datatype PriorityLabel = LabelNone | LabelHigh | LabelMedium | LabelLow

datatype FrequencyLabel =
    Every EKRecurrenceFrequency
  | EveryN int EKRecurrenceFrequency
  | RawFrequency string

datatype Message =
    MsgNoUpdateFields
  | MsgUpdated string
  | MsgPrioritySet string PriorityLabel
  | MsgRemindDateSet string string
  | MsgInvalidFrequency string
  | MsgRecurrenceSet string FrequencyLabel
  | MsgNoRecurrence
  | MsgNoLocation
  | MsgLocationCleared string

record SuccessOutput =
  success :: bool
  message :: Message

record RecurrenceInfo =
  info_frequency :: string
  info_interval :: int
  info_endDate :: "string option"
  info_endCount :: "int option"
  info_daysOfWeek :: "int list option"

record LocationInfo =
  info_title :: "string option"
  info_latitude :: Double
  info_longitude :: Double
  info_radius :: Double
  info_proximity :: string

record ReminderOutput =
  out_title :: string
  out_body :: "string option"
  out_completed :: bool
  out_dueDate :: "string option"
  out_priority :: int
  out_flagged :: bool
  hasRecurrence :: bool
  recurrence :: "RecurrenceInfo option"
  hasLocation :: bool
  location :: "LocationInfo option"

text \<open>What a command prints with \<open>outputJSON\<close>.\<close>

datatype Output =
    OutSuccess SuccessOutput
  | OutRecurrence RecurrenceInfo
  | OutLocation LocationInfo
  | OutReminders "ReminderOutput list"

text \<open>
  A command either throws or prints, and leaves a store behind: the pair of its outcome and
  the store after it.
\<close>

type_synonym Outcome = "(RemindersError + Output) \<times> EKEventStore"

text \<open>
  \<open>outputJSON\<close> encodes with a \<open>JSONEncoder\<close> in its default configuration, which throws an
  \<open>EncodingError\<close> on a \<open>Double\<close> that is not finite and accepts every \<open>Bool\<close>, \<open>Int\<close> and
  \<open>String\<close>. The only numbers of that type in the output models are the three of a
  \<open>LocationInfo\<close>. A \<open>SuccessOutput\<close> always encodes, so a command that prints one is
  modelled as printing it; the two commands that print locations go through \<open>outputJSON\<close>
  and can throw either kind of error.
\<close>

datatype CommandError = Reminders RemindersError | EncodingError

definition isFinite :: "Double \<Rightarrow> bool" where
  "isFinite x = (case x of Finite r \<Rightarrow> True | _ \<Rightarrow> False)"

definition encodableLocation :: "LocationInfo \<Rightarrow> bool" where
  "encodableLocation l =
     (isFinite (info_latitude l) \<and> isFinite (info_longitude l) \<and> isFinite (info_radius l))"

definition encodableReminder :: "ReminderOutput \<Rightarrow> bool" where
  "encodableReminder r = (case location r of None \<Rightarrow> True | Some l \<Rightarrow> encodableLocation l)"

fun encodable :: "Output \<Rightarrow> bool" where
  "encodable (OutSuccess s) = True"
| "encodable (OutRecurrence r) = True"
| "encodable (OutLocation l) = encodableLocation l"
| "encodable (OutReminders rs) = list_all encodableReminder rs"

definition outputJSON :: "Output \<Rightarrow> CommandError + Output" where
  "outputJSON v = (if encodable v then Inr v else Inl EncodingError)"

type_synonym ReadOutcome = "(CommandError + Output) \<times> EKEventStore"


section \<open>EventKitManager: store access and resolver\<close>

definition requestAccess :: "EKEventStore \<Rightarrow> RemindersError + unit" where
  "requestAccess store = (if accessGranted store then Inr () else Inl AccessDenied)"

definition findList :: "EKEventStore \<Rightarrow> string \<Rightarrow> RemindersError + EKCalendar" where
  "findList store name =
     (case find (\<lambda>c. cal_title c = name) (calendars store) of
        None \<Rightarrow> Inl (ListNotFound name)
      | Some cal \<Rightarrow> Inr cal)"

text \<open>
  \<open>predicateForReminders(in: [calendar])\<close> selects the reminders of that list, in the
  store's order.
\<close>

definition fetchReminders ::
  "EKEventStore \<Rightarrow> EKCalendar \<Rightarrow> bool \<Rightarrow> RemindersError + EKReminder list" where
  "fetchReminders store cal includeCompleted =
     (if fetchReturnsNil store then Inl FetchFailed
      else
        let rs = filter (\<lambda>r. calendar r = calendarIdentifier cal) (reminders store)
        in Inr (if includeCompleted then rs else filter (\<lambda>r. \<not> isCompleted r) rs))"

definition findReminder ::
  "EKEventStore \<Rightarrow> string \<Rightarrow> string \<Rightarrow> RemindersError + EKReminder" where
  "findReminder store listName reminderName =
     (case findList store listName of
        Inl e \<Rightarrow> Inl e
      | Inr cal \<Rightarrow>
          (case fetchReminders store cal True of
             Inl e \<Rightarrow> Inl e
           | Inr rs \<Rightarrow>
               (case find (\<lambda>r. title r = Some reminderName) rs of
                  None \<Rightarrow> Inl (ReminderNotFound reminderName)
                | Some r \<Rightarrow> Inr r)))"

text \<open>
  \<open>store.save(reminder, commit: true)\<close>: the stored copy of the reminder (the one with its
  identifier) is replaced by the object in memory; a reminder the store does not hold yet is
  added.
\<close>

definition save :: "EKEventStore \<Rightarrow> EKReminder \<Rightarrow> RemindersError + EKEventStore" where
  "save store reminder =
     (case saveError store of
        Some msg \<Rightarrow> Inl (SaveFailed msg)
      | None \<Rightarrow>
          Inr (store\<lparr>reminders :=
            (if list_ex (\<lambda>r. calendarItemIdentifier r = calendarItemIdentifier reminder)
                  (reminders store)
             then map (\<lambda>r. if calendarItemIdentifier r = calendarItemIdentifier reminder
                           then reminder else r) (reminders store)
             else reminders store @ [reminder])\<rparr>))"

definition parseDate :: "DateFormatter \<Rightarrow> string \<Rightarrow> RemindersError + Date" where
  "parseDate df dateString =
     (case date_from df dateString of
        None \<Rightarrow> Inl (InvalidDate dateString)
      | Some date \<Rightarrow> Inr date)"

definition dateToComponents :: "Date \<Rightarrow> DateComponents" where
  "dateToComponents date = date"


section \<open>Mutating the fetched reminder in memory\<close>

definition addAlarm :: "EKAlarm \<Rightarrow> EKReminder \<Rightarrow> EKReminder" where
  "addAlarm alarm target =
     target\<lparr>alarms := Some ((case alarms target of None \<Rightarrow> [] | Some xs \<Rightarrow> xs) @ [alarm])\<rparr>"

text \<open>\<open>removeAlarm\<close> takes the given alarm out of the reminder's array (one occurrence).\<close>

definition removeAlarm :: "EKAlarm \<Rightarrow> EKReminder \<Rightarrow> EKReminder" where
  "removeAlarm alarm target = target\<lparr>alarms := map_option (remove1 alarm) (alarms target)\<rparr>"

text \<open>
  The loop the helper writes three times, with the \<open>where\<close> clause as \<open>p\<close>:
  \<^verbatim>\<open>if let existingAlarms = target.alarms {
      for existing in existingAlarms where p(existing) { target.removeAlarm(existing) } }\<close>
  It runs over the array as it was before the loop, and removes from the reminder.
\<close>

definition removeAlarmsWhere :: "(EKAlarm \<Rightarrow> bool) \<Rightarrow> EKReminder \<Rightarrow> EKReminder" where
  "removeAlarmsWhere p target =
     (case alarms target of
        None \<Rightarrow> target
      | Some existingAlarms \<Rightarrow>
          fold (\<lambda>existing t. if p existing then removeAlarm existing t else t)
            existingAlarms target)"

definition addRecurrenceRule :: "EKRecurrenceRule \<Rightarrow> EKReminder \<Rightarrow> EKReminder" where
  "addRecurrenceRule rule target =
     target\<lparr>recurrenceRules :=
       Some ((case recurrenceRules target of None \<Rightarrow> [] | Some xs \<Rightarrow> xs) @ [rule])\<rparr>"

definition removeRecurrenceRule :: "EKRecurrenceRule \<Rightarrow> EKReminder \<Rightarrow> EKReminder" where
  "removeRecurrenceRule rule target =
     target\<lparr>recurrenceRules := map_option (remove1 rule) (recurrenceRules target)\<rparr>"

text \<open>
  \<^verbatim>\<open>if let existingRules = target.recurrenceRules {
      for rule in existingRules { target.removeRecurrenceRule(rule) } }\<close>
\<close>

definition removeExistingRules :: "EKReminder \<Rightarrow> EKReminder" where
  "removeExistingRules target =
     (case recurrenceRules target of
        None \<Rightarrow> target
      | Some existingRules \<Rightarrow> fold removeRecurrenceRule existingRules target)"

text \<open>\<open>EKAlarm(absoluteDate:)\<close>: a fresh alarm with that date and no location.\<close>

definition EKAlarm_absoluteDate :: "Date \<Rightarrow> EKAlarm" where
  "EKAlarm_absoluteDate date =
     \<lparr>absoluteDate = Some date, structuredLocation = None, proximity = ProximityNone\<rparr>"

text \<open>Views used to state properties: the arrays with nil read as empty.\<close>

definition alarmsOf :: "EKReminder \<Rightarrow> EKAlarm list" where
  "alarmsOf r = (case alarms r of None \<Rightarrow> [] | Some xs \<Rightarrow> xs)"

definition rulesOf :: "EKReminder \<Rightarrow> EKRecurrenceRule list" where
  "rulesOf r = (case recurrenceRules r of None \<Rightarrow> [] | Some xs \<Rightarrow> xs)"

text \<open>
  The two alarm kinds of the data model: a location alarm carries a structured location, a
  time alarm carries an absolute date and no location.
\<close>

definition isLocationAlarm :: "EKAlarm \<Rightarrow> bool" where
  "isLocationAlarm a = (structuredLocation a \<noteq> None)"

definition isTimeAlarm :: "EKAlarm \<Rightarrow> bool" where
  "isTimeAlarm a = (absoluteDate a \<noteq> None \<and> structuredLocation a = None)"


section \<open>Serializer: \<open>toOutput\<close> and \<open>ruleToInfo\<close>\<close>

definition ruleToInfo :: "DateFormatter \<Rightarrow> EKRecurrenceRule \<Rightarrow> RecurrenceInfo" where
  "ruleToInfo df rule =
     \<lparr>info_frequency =
        (case rule_frequency rule of
           Daily \<Rightarrow> ''daily'' | Weekly \<Rightarrow> ''weekly''
         | Monthly \<Rightarrow> ''monthly'' | Yearly \<Rightarrow> ''yearly''),
      info_interval = rule_interval rule,
      info_endDate =
        (case recurrenceEnd rule of
           None \<Rightarrow> None
         | Some e \<Rightarrow> map_option (string_from df) (end_endDate e)),
      info_endCount =
        (case recurrenceEnd rule of
           None \<Rightarrow> None
         | Some e \<Rightarrow> if occurrenceCount e > 0 then Some (occurrenceCount e) else None),
      info_daysOfWeek = daysOfTheWeek rule\<rparr>"

text \<open>
  The location loop of \<open>toOutput\<close>: the first alarm with a structured location that has a
  geo location decides; the pair is (\<open>hasLocation\<close>, \<open>locationInfo\<close>).
\<close>

fun locationOfAlarms :: "EKAlarm list \<Rightarrow> bool \<times> LocationInfo option" where
  "locationOfAlarms [] = (False, None)"
| "locationOfAlarms (alarm # rest) =
     (case structuredLocation alarm of
        None \<Rightarrow> locationOfAlarms rest
      | Some loc \<Rightarrow>
          (case geoLocation loc of
             None \<Rightarrow> locationOfAlarms rest
           | Some geo \<Rightarrow>
               (True,
                Some \<lparr>info_title = loc_title loc,
                      info_latitude = latitude geo,
                      info_longitude = longitude geo,
                      info_radius = radius loc,
                      info_proximity =
                        (case proximity alarm of
                           ProximityEnter \<Rightarrow> ''enter''
                         | ProximityLeave \<Rightarrow> ''leave''
                         | ProximityNone \<Rightarrow> ''none'')\<rparr>)))"

definition hasRecurrenceRules :: "EKReminder \<Rightarrow> bool" where
  "hasRecurrenceRules r = (case recurrenceRules r of None \<Rightarrow> False | Some rs \<Rightarrow> rs \<noteq> [])"

definition toOutput :: "DateFormatter \<Rightarrow> EKReminder \<Rightarrow> ReminderOutput" where
  "toOutput df reminder =
     (let dueDateStr = map_option (string_from df) (dueDateComponents reminder);
          hasRec = (hasRecurrenceRules reminder
                    \<and> \<not> (case recurrenceRules reminder of None \<Rightarrow> True | Some rs \<Rightarrow> rs = []));
          recurrenceInfo =
            (if hasRec
             then (case recurrenceRules reminder of
                     Some (rule # _) \<Rightarrow> Some (ruleToInfo df rule)
                   | _ \<Rightarrow> None)
             else None);
          loc = (case alarms reminder of
                   None \<Rightarrow> (False, None)
                 | Some as \<Rightarrow> locationOfAlarms as)
      in \<lparr>out_title = (case title reminder of None \<Rightarrow> [] | Some t \<Rightarrow> t),
          out_body = reminder_notes reminder,
          out_completed = isCompleted reminder,
          out_dueDate = dueDateStr,
          out_priority = priority reminder,
          out_flagged = False,
          hasRecurrence = hasRec,
          recurrence = recurrenceInfo,
          hasLocation = fst loc,
          location = snd loc\<rparr>)"


section \<open>Commands of the helper\<close>

subsection \<open>\<open>get-reminders\<close>\<close>

definition GetReminders_run ::
  "DateFormatter \<Rightarrow> EKEventStore \<Rightarrow> string \<Rightarrow> bool \<Rightarrow> ReadOutcome" where
  "GetReminders_run df store list includeCompleted =
     (case requestAccess store of
        Inl e \<Rightarrow> (Inl (Reminders e), store)
      | Inr _ \<Rightarrow>
     (case findList store list of
        Inl e \<Rightarrow> (Inl (Reminders e), store)
      | Inr cal \<Rightarrow>
     (case fetchReminders store cal includeCompleted of
        Inl e \<Rightarrow> (Inl (Reminders e), store)
      | Inr rs \<Rightarrow>
     (case outputJSON (OutReminders (map (toOutput df) rs)) of
        Inl e \<Rightarrow> (Inl e, store)
      | Inr printed \<Rightarrow> (Inr printed, store)))))"

subsection \<open>\<open>update\<close>\<close>

definition UpdateReminder_run ::
  "DateFormatter \<Rightarrow> EKEventStore \<Rightarrow> string \<Rightarrow> string \<Rightarrow>
   string option \<Rightarrow> string option \<Rightarrow> string option \<Rightarrow> string option \<Rightarrow> Outcome" where
  "UpdateReminder_run df store list reminder newName newBody appendBody newDueDate =
     (if \<not> (newName \<noteq> None \<or> newBody \<noteq> None \<or> appendBody \<noteq> None \<or> newDueDate \<noteq> None)
      then (Inr (OutSuccess \<lparr>success = False, message = MsgNoUpdateFields\<rparr>), store)
      else
     (case requestAccess store of
        Inl e \<Rightarrow> (Inl e, store)
      | Inr _ \<Rightarrow>
     (case findReminder store list reminder of
        Inl e \<Rightarrow> (Inl e, store)
      | Inr target \<Rightarrow>
     (let target1 = (case newName of
                       None \<Rightarrow> target
                     | Some name \<Rightarrow> target\<lparr>title := Some name\<rparr>);
          target2 = (case newBody of
                       None \<Rightarrow> target1
                     | Some body \<Rightarrow> target1\<lparr>reminder_notes := Some body\<rparr>);
          target3 = (case appendBody of
                       None \<Rightarrow> target2
                     | Some appended \<Rightarrow>
                         target2\<lparr>reminder_notes :=
                           Some ((case reminder_notes target2 of None \<Rightarrow> [] | Some n \<Rightarrow> n)
                                 @ [CHR 0x0A] @ appended)\<rparr>)
      in
     (case (case newDueDate of
              None \<Rightarrow> Inr target3
            | Some dueDateStr \<Rightarrow>
                (case parseDate df dueDateStr of
                   Inl e \<Rightarrow> Inl e
                 | Inr date \<Rightarrow>
                     Inr (target3\<lparr>dueDateComponents := Some (dateToComponents date)\<rparr>))) of
        Inl e \<Rightarrow> (Inl e, store)
      | Inr target4 \<Rightarrow>
     (case save store target4 of
        Inl e \<Rightarrow> (Inl e, store)
      | Inr store' \<Rightarrow>
          (Inr (OutSuccess \<lparr>success = True, message = MsgUpdated reminder\<rparr>), store')))))))"

subsection \<open>\<open>set-priority\<close>\<close>

definition priorityLabel :: "int \<Rightarrow> PriorityLabel" where
  "priorityLabel prio =
     (if prio = 0 then LabelNone
      else if prio \<le> 3 then LabelHigh
      else if prio \<le> 6 then LabelMedium else LabelLow)"

definition SetPriority_run :: "EKEventStore \<Rightarrow> string \<Rightarrow> string \<Rightarrow> int \<Rightarrow> Outcome" where
  "SetPriority_run store list reminder prio =
     (case requestAccess store of
        Inl e \<Rightarrow> (Inl e, store)
      | Inr _ \<Rightarrow>
     (case findReminder store list reminder of
        Inl e \<Rightarrow> (Inl e, store)
      | Inr target \<Rightarrow>
     (case save store (target\<lparr>priority := prio\<rparr>) of
        Inl e \<Rightarrow> (Inl e, store)
      | Inr store' \<Rightarrow>
          (Inr (OutSuccess
                  \<lparr>success = True,
                   message = MsgPrioritySet reminder (priorityLabel prio)\<rparr>), store'))))"

subsection \<open>\<open>set-remind-date\<close>\<close>

definition SetRemindDate_run ::
  "DateFormatter \<Rightarrow> EKEventStore \<Rightarrow> string \<Rightarrow> string \<Rightarrow> string \<Rightarrow> Outcome" where
  "SetRemindDate_run df store list reminder date =
     (case requestAccess store of
        Inl e \<Rightarrow> (Inl e, store)
      | Inr _ \<Rightarrow>
     (case findReminder store list reminder of
        Inl e \<Rightarrow> (Inl e, store)
      | Inr target \<Rightarrow>
     (case parseDate df date of
        Inl e \<Rightarrow> (Inl e, store)
      | Inr remindDate \<Rightarrow>
     (let alarm = EKAlarm_absoluteDate remindDate;
          target1 = removeAlarmsWhere (\<lambda>existing. absoluteDate existing \<noteq> None) target;
          target2 = addAlarm alarm target1
      in
     (case save store target2 of
        Inl e \<Rightarrow> (Inl e, store)
      | Inr store' \<Rightarrow>
          (Inr (OutSuccess
                  \<lparr>success = True, message = MsgRemindDateSet reminder date\<rparr>), store'))))))"

subsection \<open>\<open>set-recurrence\<close>\<close>

text \<open>
  \<open>String.lowercased()\<close>, on the ASCII letters; every other character is kept.
\<close>

definition lowercasedChar :: "char \<Rightarrow> char" where
  "lowercasedChar c =
     (case map_of (zip ''ABCDEFGHIJKLMNOPQRSTUVWXYZ'' ''abcdefghijklmnopqrstuvwxyz'') c of
        None \<Rightarrow> c
      | Some l \<Rightarrow> l)"

definition lowercased :: "string \<Rightarrow> string" where
  "lowercased s = map lowercasedChar s"

text \<open>The \<open>switch frequency.lowercased()\<close>; \<open>None\<close> is its \<open>default\<close> branch.\<close>

definition parseFrequency :: "string \<Rightarrow> EKRecurrenceFrequency option" where
  "parseFrequency frequency =
     (let f = lowercased frequency
      in if f = ''daily'' then Some Daily
         else if f = ''weekly'' then Some Weekly
         else if f = ''monthly'' then Some Monthly
         else if f = ''yearly'' then Some Yearly
         else None)"

text \<open>
  The end condition: \<open>EKRecurrenceEnd(occurrenceCount:)\<close> has no end date,
  \<open>EKRecurrenceEnd(end:)\<close> has occurrence count 0.
\<close>

definition recurrenceEndOf ::
  "DateFormatter \<Rightarrow> int option \<Rightarrow> string option \<Rightarrow> RemindersError + EKRecurrenceEnd option" where
  "recurrenceEndOf df endCount endDate =
     (case endCount of
        Some count \<Rightarrow> Inr (Some \<lparr>end_endDate = None, occurrenceCount = count\<rparr>)
      | None \<Rightarrow>
          (case endDate of
             Some dateStr \<Rightarrow>
               (case parseDate df dateStr of
                  Inl e \<Rightarrow> Inl e
                | Inr date \<Rightarrow> Inr (Some \<lparr>end_endDate = Some date, occurrenceCount = 0\<rparr>))
           | None \<Rightarrow> Inr None))"

definition freqLabel :: "string \<Rightarrow> int \<Rightarrow> FrequencyLabel" where
  "freqLabel frequency interval =
     (case parseFrequency frequency of
        Some freq \<Rightarrow> (if interval = 1 then Every freq else EveryN interval freq)
      | None \<Rightarrow> RawFrequency frequency)"

definition SetRecurrence_run ::
  "DateFormatter \<Rightarrow> EKEventStore \<Rightarrow> string \<Rightarrow> string \<Rightarrow>
   string \<Rightarrow> int \<Rightarrow> int option \<Rightarrow> string option \<Rightarrow> Outcome" where
  "SetRecurrence_run df store list reminder frequency interval endCount endDate =
     (case requestAccess store of
        Inl e \<Rightarrow> (Inl e, store)
      | Inr _ \<Rightarrow>
     (case findReminder store list reminder of
        Inl e \<Rightarrow> (Inl e, store)
      | Inr target \<Rightarrow>
     (case parseFrequency frequency of
        None \<Rightarrow>
          (Inr (OutSuccess
                  \<lparr>success = False, message = MsgInvalidFrequency frequency\<rparr>), store)
      | Some freq \<Rightarrow>
     (case recurrenceEndOf df endCount endDate of
        Inl e \<Rightarrow> (Inl e, store)
      | Inr recEnd \<Rightarrow>
     (let target1 = removeExistingRules target;
          rule = \<lparr>rule_frequency = freq, rule_interval = interval,
                  recurrenceEnd = recEnd, daysOfTheWeek = None\<rparr>;
          target2 = addRecurrenceRule rule target1
      in
     (case save store target2 of
        Inl e \<Rightarrow> (Inl e, store)
      | Inr store' \<Rightarrow>
          (Inr (OutSuccess
                  \<lparr>success = True,
                   message = MsgRecurrenceSet reminder (freqLabel frequency interval)\<rparr>),
           store')))))))"

subsection \<open>\<open>get-location\<close> and \<open>clear-location\<close>\<close>

definition GetLocation_run ::
  "DateFormatter \<Rightarrow> EKEventStore \<Rightarrow> string \<Rightarrow> string \<Rightarrow> ReadOutcome" where
  "GetLocation_run df store list reminder =
     (case requestAccess store of
        Inl e \<Rightarrow> (Inl (Reminders e), store)
      | Inr _ \<Rightarrow>
     (case findReminder store list reminder of
        Inl e \<Rightarrow> (Inl (Reminders e), store)
      | Inr target \<Rightarrow>
     (case (case location (toOutput df target) of
              Some loc \<Rightarrow> outputJSON (OutLocation loc)
            | None \<Rightarrow>
                outputJSON (OutSuccess \<lparr>success = True, message = MsgNoLocation\<rparr>)) of
        Inl e \<Rightarrow> (Inl e, store)
      | Inr printed \<Rightarrow> (Inr printed, store))))"

definition ClearLocation_run :: "EKEventStore \<Rightarrow> string \<Rightarrow> string \<Rightarrow> Outcome" where
  "ClearLocation_run store list reminder =
     (case requestAccess store of
        Inl e \<Rightarrow> (Inl e, store)
      | Inr _ \<Rightarrow>
     (case findReminder store list reminder of
        Inl e \<Rightarrow> (Inl e, store)
      | Inr target \<Rightarrow>
     (let target1 = removeAlarmsWhere (\<lambda>alarm. structuredLocation alarm \<noteq> None) target
      in
     (case save store target1 of
        Inl e \<Rightarrow> (Inl e, store)
      | Inr store' \<Rightarrow>
          (Inr (OutSuccess
                  \<lparr>success = True, message = MsgLocationCleared reminder\<rparr>), store')))))"


section \<open>The tool server: the \<open>get_reminders\<close> handlers (index.ts)\<close>

text \<open>
  A JavaScript string is a sequence of UTF-16 code units. \<open>js\<close> writes an ASCII text as
  one.
\<close>

type_synonym jsstring = "nat list"

definition js :: "string \<Rightarrow> jsstring" where
  "js s = map of_char s"

text \<open>
  A handler spawns a process and reads its exit code and its two output streams as texts.
  The process is outside the program, so a handler takes it as a function from what is run
  to what comes back.
\<close>

record ProcessResult =
  exitCode :: int
  stdout :: jsstring
  stderr :: jsstring

datatype ToolError =
    AppleScriptError jsstring
  | HelperError jsstring
  | TypeError

text \<open>
  The two script templates of the AppleScript handler, each determined by the list name
  and the completed filter: the detailed one builds a record of name, body, completed and
  due date per reminder, the simple one asks for the names only.
\<close>

datatype AppleScript =
    ReminderDataScript jsstring bool
  | ReminderNamesScript jsstring bool

datatype json =
    JNull
  | JBool bool
  | JNum real
  | JStr jsstring
  | JArr "json list"
  | JObj "(jsstring \<times> json) list"

text \<open>The text a handler answers with; the fixed Japanese sentence is \<open>TextNoReminders\<close>.\<close>

datatype ToolText =
    TextRaw jsstring
  | TextNoReminders
  | TextNames "jsstring list"
  | TextJSON json

text \<open>
  \<open>String.prototype.trim\<close> strips the white space and line terminators of ECMAScript:
  U+0009 to U+000D, U+0020, U+00A0, U+1680, U+2000 to U+200A, U+2028, U+2029, U+202F,
  U+205F, U+3000 and U+FEFF. Each is one code unit.
\<close>

definition isSpace :: "nat \<Rightarrow> bool" where
  "isSpace c =
     (c \<in> set ([0x0009, 0x000A, 0x000B, 0x000C, 0x000D, 0x0020, 0x00A0, 0x1680]
               @ [0x2000 ..< 0x200B]
               @ [0x2028, 0x2029, 0x202F, 0x205F, 0x3000, 0xFEFF]))"

definition trim :: "jsstring \<Rightarrow> jsstring" where
  "trim s = rev (dropWhile isSpace (rev (dropWhile isSpace s)))"

text \<open>
  \<open>result.split(", ")\<close>, a comma (U+002C) followed by a space (U+0020); the first argument
  collects the current piece, reversed.
\<close>

fun split_comma :: "jsstring \<Rightarrow> jsstring \<Rightarrow> jsstring list" where
  "split_comma acc [] = [rev acc]"
| "split_comma acc (c # cs) =
     (case cs of
        [] \<Rightarrow> split_comma (c # acc) cs
      | d # ds \<Rightarrow>
          if c = 0x2C \<and> d = 0x20 then rev acc # split_comma [] ds
          else split_comma (c # acc) cs)"

definition runAppleScript ::
  "(AppleScript \<Rightarrow> ProcessResult) \<Rightarrow> AppleScript \<Rightarrow> ToolError + jsstring" where
  "runAppleScript osascript script =
     (let proc = osascript script
      in if exitCode proc \<noteq> 0 then Inl (AppleScriptError (stderr proc))
         else Inr (trim (stdout proc)))"

text \<open>The AppleScript-backed handler: a detailed script first, the names-only script in \<open>catch\<close>.\<close>

definition get_reminders_osascript ::
  "(AppleScript \<Rightarrow> ProcessResult) \<Rightarrow> jsstring \<Rightarrow> bool \<Rightarrow> ToolError + ToolText" where
  "get_reminders_osascript osascript listName includeCompleted =
     (case runAppleScript osascript (ReminderDataScript listName includeCompleted) of
        Inr result \<Rightarrow> Inr (if result \<noteq> [] then TextRaw result else TextNoReminders)
      | Inl error \<Rightarrow>
          (case runAppleScript osascript (ReminderNamesScript listName includeCompleted) of
             Inl e \<Rightarrow> Inl e
           | Inr result \<Rightarrow>
               Inr (TextNames (if result \<noteq> [] then split_comma [] result else []))))"

text \<open>
  \<open>runHelper\<close>: a non-zero exit code throws with the trimmed stderr, or the trimmed stdout
  when that is empty; otherwise the trimmed stdout is parsed, and wrapped as
  \<open>{text: ...}\<close> when it is not JSON. \<open>parse\<close> is \<open>JSON.parse\<close>, \<open>None\<close> when it throws.
\<close>

definition runHelper ::
  "(jsstring list \<Rightarrow> ProcessResult) \<Rightarrow> (jsstring \<Rightarrow> json option) \<Rightarrow> jsstring list
   \<Rightarrow> ToolError + json" where
  "runHelper spawn parse args =
     (let proc = spawn args
      in if exitCode proc \<noteq> 0
         then Inl (HelperError
                (if trim (stderr proc) \<noteq> [] then trim (stderr proc) else trim (stdout proc)))
         else (case parse (trim (stdout proc)) of
                 Some j \<Rightarrow> Inr j
               | None \<Rightarrow> Inr (JObj [(js ''text'', JStr (trim (stdout proc)))])))"

text \<open>
  Reading a property of a parsed value: \<open>None\<close> is \<open>undefined\<close>, reading from \<open>null\<close>
  throws. In an object written with a key twice the later value counts.
\<close>

definition js_prop :: "json \<Rightarrow> jsstring \<Rightarrow> ToolError + json option" where
  "js_prop v key =
     (case v of
        JNull \<Rightarrow> Inl TypeError
      | JObj kvs \<Rightarrow> Inr (map_of (rev kvs) key)
      | JArr xs \<Rightarrow> Inr (if key = js ''length'' then Some (JNum (real (length xs))) else None)
      | JStr s \<Rightarrow> Inr (if key = js ''length'' then Some (JNum (real (length s))) else None)
      | _ \<Rightarrow> Inr None)"

text \<open>\<open>v?.length\<close>: \<open>undefined\<close> when \<open>v\<close> is \<open>undefined\<close> or \<open>null\<close>.\<close>

definition js_optional_length :: "json option \<Rightarrow> json option" where
  "js_optional_length v =
     (case v of
        None \<Rightarrow> None
      | Some JNull \<Rightarrow> None
      | Some x \<Rightarrow> (case js_prop x (js ''length'') of Inl _ \<Rightarrow> None | Inr l \<Rightarrow> l))"

definition js_truthy :: "json option \<Rightarrow> bool" where
  "js_truthy v =
     (case v of
        None \<Rightarrow> False
      | Some JNull \<Rightarrow> False
      | Some (JBool b) \<Rightarrow> b
      | Some (JNum n) \<Rightarrow> n \<noteq> 0
      | Some (JStr s) \<Rightarrow> s \<noteq> []
      | Some _ \<Rightarrow> True)"

definition get_reminders_args :: "jsstring \<Rightarrow> bool \<Rightarrow> jsstring list" where
  "get_reminders_args listName includeCompleted =
     [js ''get-reminders'', js ''--list'', listName]
     @ (if includeCompleted then [js ''--include-completed''] else [])"

text \<open>The helper-backed handler: one call of the helper, no \<open>try\<close>.\<close>

definition get_reminders_helper ::
  "(jsstring list \<Rightarrow> ProcessResult) \<Rightarrow> (jsstring \<Rightarrow> json option) \<Rightarrow> jsstring \<Rightarrow> bool
   \<Rightarrow> ToolError + ToolText" where
  "get_reminders_helper spawn parse listName includeCompleted =
     (case runHelper spawn parse (get_reminders_args listName includeCompleted) of
        Inl e \<Rightarrow> Inl e
      | Inr result \<Rightarrow>
          (case js_prop result (js ''reminders'') of
             Inl e \<Rightarrow> Inl e
           | Inr rems \<Rightarrow>
               Inr (if js_truthy (js_optional_length rems)
                    then (case rems of Some v \<Rightarrow> TextJSON v | None \<Rightarrow> TextNoReminders)
                    else TextNoReminders)))"


section \<open>A small store to run the commands on\<close>

definition exampleFormatter :: DateFormatter where
  "exampleFormatter =
     \<lparr>date_from = (\<lambda>s. if s = ''2024-03-15 09:00'' then Some 100
                        else if s = ''2024-03-16 18:30'' then Some 200 else None),
      string_from = (\<lambda>d. if d = 100 then ''2024-03-15 09:00''
                          else if d = 200 then ''2024-03-16 18:30'' else ''1970-01-01 00:00'')\<rparr>"

definition officeAlarm :: EKAlarm where
  "officeAlarm =
     \<lparr>absoluteDate = None,
      structuredLocation =
        Some \<lparr>loc_title = Some ''Office'',
              geoLocation = Some \<lparr>latitude = Finite 35, longitude = Finite 139\<rparr>,
              radius = Finite 50\<rparr>,
      proximity = ProximityLeave\<rparr>"

definition shipReport :: EKReminder where
  "shipReport =
     \<lparr>calendarItemIdentifier = 10, calendar = 1, title = Some ''Ship report'',
      reminder_notes = None, isCompleted = False, dueDateComponents = None, priority = 0,
      alarms = Some [EKAlarm_absoluteDate 50, officeAlarm, EKAlarm_absoluteDate 60],
      recurrenceRules =
        Some [\<lparr>rule_frequency = Daily, rule_interval = 1, recurrenceEnd = None,
                daysOfTheWeek = None\<rparr>,
              \<lparr>rule_frequency = Monthly, rule_interval = 3, recurrenceEnd = None,
                daysOfTheWeek = None\<rparr>]\<rparr>"

definition oldTask :: EKReminder where
  "oldTask =
     \<lparr>calendarItemIdentifier = 11, calendar = 1, title = Some ''Old task'',
      reminder_notes = Some ''done'', isCompleted = True, dueDateComponents = Some 100,
      priority = 7, alarms = None, recurrenceRules = None\<rparr>"

definition exampleStore :: EKEventStore where
  "exampleStore =
     \<lparr>accessGranted = True,
      calendars = [\<lparr>calendarIdentifier = 1, cal_title = ''Work''\<rparr>,
                   \<lparr>calendarIdentifier = 2, cal_title = ''Backlog''\<rparr>],
      reminders = [oldTask, shipReport],
      fetchReturnsNil = False,
      saveError = None\<rparr>"

text \<open>
  A second store: the list Backlog holds a reminder without a due date and a reminder whose
  location alarm has an infinite radius.
\<close>

definition buyMilk :: EKReminder where
  "buyMilk =
     \<lparr>calendarItemIdentifier = 20, calendar = 2, title = Some ''Buy milk'',
      reminder_notes = None, isCompleted = False, dueDateComponents = None, priority = 0,
      alarms = None, recurrenceRules = None\<rparr>"

definition everywhereAlarm :: EKAlarm where
  "everywhereAlarm =
     \<lparr>absoluteDate = None,
      structuredLocation =
        Some \<lparr>loc_title = Some ''Everywhere'',
              geoLocation = Some \<lparr>latitude = Finite 35, longitude = Finite 139\<rparr>,
              radius = PlusInfinity\<rparr>,
      proximity = ProximityEnter\<rparr>"

definition callHome :: EKReminder where
  "callHome =
     \<lparr>calendarItemIdentifier = 21, calendar = 2, title = Some ''Call home'',
      reminder_notes = None, isCompleted = False, dueDateComponents = Some 100, priority = 5,
      alarms = Some [everywhereAlarm], recurrenceRules = None\<rparr>"

definition backlogStore :: EKEventStore where
  "backlogStore = exampleStore\<lparr>reminders := [oldTask, shipReport, buyMilk, callHome]\<rparr>"

definition milkStore :: EKEventStore where
  "milkStore = exampleStore\<lparr>reminders := [oldTask, shipReport, buyMilk]\<rparr>"

text \<open>A helper process that exits with status 1 after writing to stderr.\<close>

definition failingHelper :: "jsstring list \<Rightarrow> ProcessResult" where
  "failingHelper args =
     \<lparr>exitCode = 1, stdout = [], stderr = js ''Error: invalid value'' @ [0x0A]\<rparr>"

text \<open>
  An osascript on which only the detailed script fails; the names come back after a
  U+FEFF and before a no-break space (U+00A0), an em space (U+2003), an ideographic space
  (U+3000) and a line break.
\<close>

definition dueDateOsascript :: "AppleScript \<Rightarrow> ProcessResult" where
  "dueDateOsascript script =
     (case script of
        ReminderDataScript l c \<Rightarrow>
          \<lparr>exitCode = 1, stdout = [], stderr = js ''missing value''\<rparr>
      | ReminderNamesScript l c \<Rightarrow>
          \<lparr>exitCode = 0,
            stdout = [0xFEFF] @ js ''Buy milk, Call home'' @ [0x00A0, 0x2003, 0x3000, 0x0A],
            stderr = []\<rparr>)"

text \<open>
  An osascript on which the detailed script succeeds, and a helper process that exits with
  status 0; \<open>listingParse\<close> reads the helper's text as an object with one reminder.
\<close>

definition detailedOsascript :: "AppleScript \<Rightarrow> ProcessResult" where
  "detailedOsascript script =
     \<lparr>exitCode = 0, stdout = js ''name:Buy milk, body:missing value'' @ [0x0A], stderr = []\<rparr>"

definition listingHelper :: "jsstring list \<Rightarrow> ProcessResult" where
  "listingHelper args = \<lparr>exitCode = 0, stdout = js ''LISTING'' @ [0x0A], stderr = []\<rparr>"

definition listingParse :: "jsstring \<Rightarrow> json option" where
  "listingParse s =
     (if s = js ''LISTING''
      then Some (JObj [(js ''reminders'', JArr [JObj [(js ''title'', JStr (js ''Buy milk''))]])])
      else None)"

definition storeAfter :: "EKReminder \<Rightarrow> EKEventStore" where
  "storeAfter r = exampleStore\<lparr>reminders := [oldTask, r]\<rparr>"

definition weeklyRule :: EKRecurrenceRule where
  "weeklyRule =
     \<lparr>rule_frequency = Weekly, rule_interval = 2,
      recurrenceEnd = Some \<lparr>end_endDate = None, occurrenceCount = 5\<rparr>,
      daysOfTheWeek = None\<rparr>"

definition yearlyRule :: EKRecurrenceRule where
  "yearlyRule =
     \<lparr>rule_frequency = Yearly, rule_interval = 1,
      recurrenceEnd = Some \<lparr>end_endDate = Some 200, occurrenceCount = 0\<rparr>,
      daysOfTheWeek = None\<rparr>"

text \<open>A \<open>JSON.parse\<close> that rejects every text.\<close>

definition unparsed :: "jsstring \<Rightarrow> json option" where
  "unparsed s = None"

lemmas store_defs =
  requestAccess_def findReminder_def findList_def fetchReminders_def save_def parseDate_def
  exampleStore_def exampleFormatter_def shipReport_def oldTask_def officeAlarm_def
  EKAlarm_absoluteDate_def

lemmas loop_defs =
  removeAlarmsWhere_def removeAlarm_def addAlarm_def
  removeExistingRules_def removeRecurrenceRule_def addRecurrenceRule_def

lemmas frequency_defs = parseFrequency_def lowercased_def lowercasedChar_def freqLabel_def


section \<open>The removal loops and the resolver after a save\<close>

lemma fold_remove1_where:
  "\<forall>z \<in> set zs. \<not> p z \<Longrightarrow>
   fold (\<lambda>a xs. if p a then remove1 a xs else xs) ys (zs @ ys) = zs @ filter (\<lambda>a. \<not> p a) ys"
proof (induction ys arbitrary: zs)
  case Nil
  then show ?case by simp
next
  case (Cons y ys)
  show ?case
  proof (cases "p y")
    case True
    with Cons.prems have "y \<notin> set zs" by auto
    then have "remove1 y (zs @ y # ys) = zs @ ys" by (simp add: remove1_append)
    with True Cons.IH [OF Cons.prems] show ?thesis by simp
  next
    case False
    with Cons.prems have "\<forall>z \<in> set (zs @ [y]). \<not> p z" by auto
    from Cons.IH [OF this] False show ?thesis by simp
  qed
qed

lemma fold_removeAlarm:
  "fold (\<lambda>existing t. if p existing then removeAlarm existing t else t) ys target =
   target\<lparr>alarms := map_option (fold (\<lambda>a xs. if p a then remove1 a xs else xs) ys) (alarms target)\<rparr>"
proof (induction ys arbitrary: target)
  case Nil
  show ?case by (cases "alarms target") simp_all
next
  case (Cons y ys)
  show ?case by (cases "alarms target") (simp_all add: Cons.IH removeAlarm_def)
qed

lemma removeAlarmsWhere_filter:
  "removeAlarmsWhere p target =
   target\<lparr>alarms := map_option (filter (\<lambda>a. \<not> p a)) (alarms target)\<rparr>"
proof (cases "alarms target")
  case None
  then show ?thesis by (simp add: removeAlarmsWhere_def)
next
  case (Some xs)
  have "fold (\<lambda>a xs. if p a then remove1 a xs else xs) xs ([] @ xs) = [] @ filter (\<lambda>a. \<not> p a) xs"
    by (rule fold_remove1_where) simp
  with Some show ?thesis by (simp add: removeAlarmsWhere_def fold_removeAlarm)
qed

lemma fold_remove1_prefix: "fold remove1 ys (ys @ zs) = zs"
  by (induction ys) simp_all

lemma fold_removeRecurrenceRule:
  "fold removeRecurrenceRule ys target =
   target\<lparr>recurrenceRules := map_option (fold remove1 ys) (recurrenceRules target)\<rparr>"
proof (induction ys arbitrary: target)
  case Nil
  show ?case by (cases "recurrenceRules target") simp_all
next
  case (Cons y ys)
  have "fold removeRecurrenceRule (y # ys) target =
        fold removeRecurrenceRule ys (removeRecurrenceRule y target)" by simp
  also have "\<dots> = (removeRecurrenceRule y target)\<lparr>recurrenceRules :=
        map_option (fold remove1 ys) (recurrenceRules (removeRecurrenceRule y target))\<rparr>"
    by (rule Cons.IH)
  also have "\<dots> = target\<lparr>recurrenceRules :=
        map_option (fold remove1 (y # ys)) (recurrenceRules target)\<rparr>"
    by (cases "recurrenceRules target") (simp_all add: removeRecurrenceRule_def)
  finally show ?case .
qed

lemma removeExistingRules_empty:
  "removeExistingRules target =
   target\<lparr>recurrenceRules := map_option (\<lambda>_. []) (recurrenceRules target)\<rparr>"
proof (cases "recurrenceRules target")
  case None
  then show ?thesis by (simp add: removeExistingRules_def)
next
  case (Some xs)
  have "fold remove1 xs (xs @ []) = []" by (rule fold_remove1_prefix)
  with Some show ?thesis by (simp add: removeExistingRules_def fold_removeRecurrenceRule)
qed

lemma find_filter: "find P (filter Q xs) = find (\<lambda>x. Q x \<and> P x) xs"
  by (induction xs) simp_all

lemma find_map_replace:
  assumes "find Q rs = Some r" and "Q r'" and "ident r' = ident r"
  shows "find Q (map (\<lambda>x. if ident x = ident r' then r' else x) rs) = Some r'"
  using assms by (induction rs) (auto split: if_splits)

lemma find_first_index:
  "find P xs = Some x \<longleftrightarrow> (\<exists>i < length xs. xs ! i = x \<and> P x \<and> (\<forall>j < i. \<not> P (xs ! j)))"
  by (auto simp: find_Some_iff)

lemma findReminder_Inr_iff:
  "findReminder store l t = Inr r \<longleftrightarrow>
   (\<exists>cal. find (\<lambda>c. cal_title c = l) (calendars store) = Some cal \<and> \<not> fetchReturnsNil store \<and>
      find (\<lambda>x. calendar x = calendarIdentifier cal \<and> title x = Some t) (reminders store) = Some r)"
  by (auto simp: findReminder_def findList_def fetchReminders_def find_filter
           split: option.splits sum.splits if_splits)

lemma findReminder_save:
  assumes found: "findReminder store l t = Inr r"
    and saved: "save store r' = Inr store'"
    and same: "calendarItemIdentifier r' = calendarItemIdentifier r"
              "calendar r' = calendar r" "title r' = title r"
  shows "findReminder store' l t = Inr r'"
proof -
  from found obtain cal where
    cal: "find (\<lambda>c. cal_title c = l) (calendars store) = Some cal"
    and nonil: "\<not> fetchReturnsNil store"
    and fr: "find (\<lambda>x. calendar x = calendarIdentifier cal \<and> title x = Some t) (reminders store) = Some r"
    by (auto simp: findReminder_Inr_iff)
  let ?Q = "\<lambda>x. calendar x = calendarIdentifier cal \<and> title x = Some t"
  from fr have Qr: "?Q r" and rin: "r \<in> set (reminders store)"
    by (auto simp: find_Some_iff)
  with same have Qr': "?Q r'" by simp
  from rin same have ex: "list_ex (\<lambda>x. calendarItemIdentifier x = calendarItemIdentifier r') (reminders store)"
    by (auto simp: list_ex_iff)
  from saved ex have store': "store' = store\<lparr>reminders :=
        map (\<lambda>x. if calendarItemIdentifier x = calendarItemIdentifier r' then r' else x) (reminders store)\<rparr>"
    by (auto simp: save_def split: option.splits)
  have "find ?Q (reminders store') = Some r'"
    unfolding store' using find_map_replace [OF fr Qr' same(1)] by simp
  with cal nonil show ?thesis
    unfolding findReminder_Inr_iff by (auto simp: store')
qed

lemma locationOfAlarms_no_location:
  "\<forall>a \<in> set xs. structuredLocation a = None \<Longrightarrow> locationOfAlarms xs = (False, None)"
  by (induction xs) simp_all

lemma recurrenceEndOf_count:
  "recurrenceEndOf df (Some n) endDate = Inr (Some \<lparr>end_endDate = None, occurrenceCount = n\<rparr>)"
  by (simp add: recurrenceEndOf_def)

lemma parseFrequency_None_iff:
  "parseFrequency frequency = None \<longleftrightarrow>
   lowercased frequency \<notin> {''daily'', ''weekly'', ''monthly'', ''yearly''}"
  by (simp add: parseFrequency_def Let_def)


section \<open>What one successful command leaves behind\<close>

lemma SetRemindDate_run_success:
  assumes run: "SetRemindDate_run df store list reminder date = (Inr out, store')"
  shows "\<exists>target d.
           findReminder store list reminder = Inr target \<and>
           date_from df date = Some d \<and>
           findReminder store' list reminder =
             Inr (target\<lparr>alarms :=
                    Some (filter (\<lambda>a. absoluteDate a = None) (alarmsOf target)
                          @ [EKAlarm_absoluteDate d])\<rparr>)"
proof -
  from run obtain target where found: "findReminder store list reminder = Inr target"
    by (auto simp: SetRemindDate_run_def split: sum.splits)
  from run found obtain d where d: "date_from df date = Some d"
    by (auto simp: SetRemindDate_run_def parseDate_def split: sum.splits option.splits)
  let ?t2 = "addAlarm (EKAlarm_absoluteDate d)
               (removeAlarmsWhere (\<lambda>existing. absoluteDate existing \<noteq> None) target)"
  from run found d have saved: "save store ?t2 = Inr store'"
    by (auto simp: SetRemindDate_run_def parseDate_def Let_def split: sum.splits)
  have t2: "?t2 = target\<lparr>alarms :=
                    Some (filter (\<lambda>a. absoluteDate a = None) (alarmsOf target)
                          @ [EKAlarm_absoluteDate d])\<rparr>"
    by (cases "alarms target") (simp_all add: removeAlarmsWhere_filter addAlarm_def alarmsOf_def)
  have "findReminder store' list reminder = Inr ?t2"
    by (rule findReminder_save [OF found saved]) (simp_all only: t2, simp_all)
  with found d show ?thesis unfolding t2 by blast
qed

lemma SetRecurrence_run_success:
  assumes run: "SetRecurrence_run df store list reminder frequency interval endCount endDate =
                  (Inr (OutSuccess \<lparr>success = True, message = m\<rparr>), store')"
  shows "\<exists>target freq recEnd.
           findReminder store list reminder = Inr target \<and>
           parseFrequency frequency = Some freq \<and>
           recurrenceEndOf df endCount endDate = Inr recEnd \<and>
           findReminder store' list reminder =
             Inr (target\<lparr>recurrenceRules :=
                    Some [\<lparr>rule_frequency = freq, rule_interval = interval,
                            recurrenceEnd = recEnd, daysOfTheWeek = None\<rparr>]\<rparr>)"
proof -
  from run obtain target where found: "findReminder store list reminder = Inr target"
    by (auto simp: SetRecurrence_run_def split: sum.splits)
  from run found obtain freq where freq: "parseFrequency frequency = Some freq"
    by (auto simp: SetRecurrence_run_def split: sum.splits option.splits)
  from run found freq obtain recEnd where recEnd: "recurrenceEndOf df endCount endDate = Inr recEnd"
    by (auto simp: SetRecurrence_run_def split: sum.splits)
  let ?rule = "\<lparr>rule_frequency = freq, rule_interval = interval,
                 recurrenceEnd = recEnd, daysOfTheWeek = None\<rparr>"
  let ?t2 = "addRecurrenceRule ?rule (removeExistingRules target)"
  from run found freq recEnd have saved: "save store ?t2 = Inr store'"
    by (auto simp: SetRecurrence_run_def Let_def split: sum.splits)
  have t2: "?t2 = target\<lparr>recurrenceRules := Some [?rule]\<rparr>"
    by (cases "recurrenceRules target")
       (simp_all add: removeExistingRules_empty addRecurrenceRule_def)
  have "findReminder store' list reminder = Inr ?t2"
    by (rule findReminder_save [OF found saved]) (simp_all only: t2, simp_all)
  with found freq recEnd show ?thesis unfolding t2 by blast
qed

lemma ClearLocation_run_success:
  assumes run: "ClearLocation_run store list reminder = (Inr out, store')"
  shows "\<exists>target.
           findReminder store list reminder = Inr target \<and>
           accessGranted store' \<and>
           findReminder store' list reminder =
             Inr (target\<lparr>alarms :=
                    map_option (filter (\<lambda>a. structuredLocation a = None)) (alarms target)\<rparr>)"
proof -
  from run have granted: "accessGranted store"
    by (auto simp: ClearLocation_run_def requestAccess_def split: sum.splits if_splits)
  from run obtain target where found: "findReminder store list reminder = Inr target"
    by (auto simp: ClearLocation_run_def split: sum.splits)
  let ?t1 = "removeAlarmsWhere (\<lambda>alarm. structuredLocation alarm \<noteq> None) target"
  from run found have saved: "save store ?t1 = Inr store'"
    by (auto simp: ClearLocation_run_def Let_def split: sum.splits)
  have t1: "?t1 = target\<lparr>alarms :=
                    map_option (filter (\<lambda>a. structuredLocation a = None)) (alarms target)\<rparr>"
    by (simp add: removeAlarmsWhere_filter)
  have "findReminder store' list reminder = Inr ?t1"
    by (rule findReminder_save [OF found saved]) (simp_all only: t1, simp_all)
  moreover from saved granted have "accessGranted store'"
    by (auto simp: save_def split: option.splits)
  ultimately show ?thesis using found unfolding t1 by blast
qed


section \<open>The claims\<close>

text \<open>
  Claim C1. Two successive \<open>set-remind-date\<close> calls on the same reminder that both succeed
  leave that reminder with exactly one alarm that has an absolute date, hence exactly one
  time alarm, and its absolute date is the date the second call's text parses to: each call
  drops every alarm with an absolute date, keeps the others in their order, and appends one
  new alarm with that date, no location and no proximity.
\<close>

theorem set_remind_date_twice:
  assumes first: "SetRemindDate_run df store list reminder date1 = (Inr out1, store1)"
    and second: "SetRemindDate_run df store1 list reminder date2 = (Inr out2, store2)"
  shows "\<exists>target0 target2 d2.
           findReminder store list reminder = Inr target0 \<and>
           findReminder store2 list reminder = Inr target2 \<and>
           calendarItemIdentifier target2 = calendarItemIdentifier target0 \<and>
           date_from df date2 = Some d2 \<and>
           filter (\<lambda>a. absoluteDate a \<noteq> None) (alarmsOf target2) =
             [\<lparr>absoluteDate = Some d2, structuredLocation = None,
               proximity = ProximityNone\<rparr>] \<and>
           filter isTimeAlarm (alarmsOf target2) =
             [\<lparr>absoluteDate = Some d2, structuredLocation = None,
               proximity = ProximityNone\<rparr>] \<and>
           alarmsOf target2 =
             filter (\<lambda>a. absoluteDate a = None) (alarmsOf target0)
             @ [\<lparr>absoluteDate = Some d2, structuredLocation = None,
                 proximity = ProximityNone\<rparr>]"
proof -
  from SetRemindDate_run_success [OF first] obtain target0 d1 where
    f0: "findReminder store list reminder = Inr target0"
    and f1: "findReminder store1 list reminder =
             Inr (target0\<lparr>alarms := Some (filter (\<lambda>a. absoluteDate a = None) (alarmsOf target0)
                          @ [EKAlarm_absoluteDate d1])\<rparr>)"
    by blast
  from SetRemindDate_run_success [OF second] f1 obtain d2 where
    d2: "date_from df date2 = Some d2"
    and f2: "findReminder store2 list reminder =
             Inr (target0\<lparr>alarms := Some (filter (\<lambda>a. absoluteDate a = None) (alarmsOf target0)
                          @ [EKAlarm_absoluteDate d2])\<rparr>)"
    by (auto simp: alarmsOf_def EKAlarm_absoluteDate_def)
  let ?kept = "filter (\<lambda>a. absoluteDate a = None) (alarmsOf target0)"
  let ?new = "\<lparr>absoluteDate = Some d2, structuredLocation = None, proximity = ProximityNone\<rparr>"
  let ?target2 = "target0\<lparr>alarms := Some (?kept @ [?new])\<rparr>"
  from f2 have f2': "findReminder store2 list reminder = Inr ?target2"
    by (simp add: EKAlarm_absoluteDate_def)
  have al: "alarmsOf ?target2 = ?kept @ [?new]" by (simp add: alarmsOf_def)
  have dated: "filter (\<lambda>a. absoluteDate a \<noteq> None) (alarmsOf ?target2) = [?new]"
    unfolding al by (auto simp: filter_empty_conv)
  have timed: "filter isTimeAlarm (alarmsOf ?target2) = [?new]"
    unfolding al by (auto simp: isTimeAlarm_def filter_empty_conv)
  have ident: "calendarItemIdentifier ?target2 = calendarItemIdentifier target0" by simp
  from f0 f2' ident d2 dated timed al show ?thesis by blast
qed

text \<open>
  Claim C1, on the example store: the reminder starts with two time alarms and one location
  alarm; after the two calls its alarms are the location alarm and one time alarm, with the
  instant 200 that the second text parses to.
\<close>

theorem set_remind_date_twice_witness:
  "SetRemindDate_run exampleFormatter exampleStore ''Work'' ''Ship report'' ''2024-03-15 09:00''
     = (Inr (OutSuccess \<lparr>success = True,
                          message = MsgRemindDateSet ''Ship report'' ''2024-03-15 09:00''\<rparr>),
        storeAfter (shipReport\<lparr>alarms := Some [officeAlarm,
          \<lparr>absoluteDate = Some 100, structuredLocation = None, proximity = ProximityNone\<rparr>]\<rparr>)) \<and>
   SetRemindDate_run exampleFormatter
       (storeAfter (shipReport\<lparr>alarms := Some [officeAlarm,
          \<lparr>absoluteDate = Some 100, structuredLocation = None, proximity = ProximityNone\<rparr>]\<rparr>))
       ''Work'' ''Ship report'' ''2024-03-16 18:30''
     = (Inr (OutSuccess \<lparr>success = True,
                          message = MsgRemindDateSet ''Ship report'' ''2024-03-16 18:30''\<rparr>),
        storeAfter (shipReport\<lparr>alarms := Some [officeAlarm,
          \<lparr>absoluteDate = Some 200, structuredLocation = None, proximity = ProximityNone\<rparr>]\<rparr>)) \<and>
   date_from exampleFormatter ''2024-03-16 18:30'' = Some 200 \<and>
   (\<exists>target2.
      findReminder
        (storeAfter (shipReport\<lparr>alarms := Some [officeAlarm,
          \<lparr>absoluteDate = Some 200, structuredLocation = None, proximity = ProximityNone\<rparr>]\<rparr>))
        ''Work'' ''Ship report'' = Inr target2 \<and>
      filter isTimeAlarm (alarmsOf target2) =
        [\<lparr>absoluteDate = Some 200, structuredLocation = None, proximity = ProximityNone\<rparr>] \<and>
      alarmsOf target2 =
        [officeAlarm,
         \<lparr>absoluteDate = Some 200, structuredLocation = None, proximity = ProximityNone\<rparr>])"
proof -
  have h1: "SetRemindDate_run exampleFormatter exampleStore ''Work'' ''Ship report''
       ''2024-03-15 09:00''
     = (Inr (OutSuccess \<lparr>success = True,
                          message = MsgRemindDateSet ''Ship report'' ''2024-03-15 09:00''\<rparr>),
        storeAfter (shipReport\<lparr>alarms := Some [officeAlarm,
          \<lparr>absoluteDate = Some 100, structuredLocation = None, proximity = ProximityNone\<rparr>]\<rparr>))"
    by (simp add: SetRemindDate_run_def store_defs loop_defs storeAfter_def)
  have h2: "SetRemindDate_run exampleFormatter
       (storeAfter (shipReport\<lparr>alarms := Some [officeAlarm,
          \<lparr>absoluteDate = Some 100, structuredLocation = None, proximity = ProximityNone\<rparr>]\<rparr>))
       ''Work'' ''Ship report'' ''2024-03-16 18:30''
     = (Inr (OutSuccess \<lparr>success = True,
                          message = MsgRemindDateSet ''Ship report'' ''2024-03-16 18:30''\<rparr>),
        storeAfter (shipReport\<lparr>alarms := Some [officeAlarm,
          \<lparr>absoluteDate = Some 200, structuredLocation = None, proximity = ProximityNone\<rparr>]\<rparr>))"
    by (simp add: SetRemindDate_run_def store_defs loop_defs storeAfter_def)
  have d: "date_from exampleFormatter ''2024-03-16 18:30'' = Some 200"
    by (simp add: exampleFormatter_def)
  have kept: "filter (\<lambda>a. absoluteDate a = None) (alarmsOf shipReport) = [officeAlarm]"
    by (simp add: alarmsOf_def shipReport_def officeAlarm_def EKAlarm_absoluteDate_def)
  have f0: "findReminder exampleStore ''Work'' ''Ship report'' = Inr shipReport"
    by (simp add: store_defs)
  from set_remind_date_twice [OF h1 h2] d kept f0 h1 h2 show ?thesis by auto
qed

text \<open>
  Claim C2. Two successive \<open>set-recurrence\<close> calls on the same reminder that both answer
  \<open>success: true\<close> leave that reminder with exactly one recurrence rule, whose frequency,
  interval and end are those of the second call, whatever rules the store held before.
\<close>

theorem set_recurrence_twice:
  assumes first: "SetRecurrence_run df store list reminder frequency1 interval1 endCount1 endDate1 =
                    (Inr (OutSuccess \<lparr>success = True, message = m1\<rparr>), store1)"
    and second: "SetRecurrence_run df store1 list reminder frequency2 interval2 endCount2 endDate2 =
                    (Inr (OutSuccess \<lparr>success = True, message = m2\<rparr>), store2)"
  shows "\<exists>target0 target2 freq recEnd.
           findReminder store list reminder = Inr target0 \<and>
           findReminder store2 list reminder = Inr target2 \<and>
           calendarItemIdentifier target2 = calendarItemIdentifier target0 \<and>
           parseFrequency frequency2 = Some freq \<and>
           recurrenceEndOf df endCount2 endDate2 = Inr recEnd \<and>
           rulesOf target2 =
             [\<lparr>rule_frequency = freq, rule_interval = interval2,
               recurrenceEnd = recEnd, daysOfTheWeek = None\<rparr>]"
proof -
  from SetRecurrence_run_success [OF first] obtain target0 freq1 recEnd1 where
    f0: "findReminder store list reminder = Inr target0"
    and f1: "findReminder store1 list reminder =
             Inr (target0\<lparr>recurrenceRules :=
                    Some [\<lparr>rule_frequency = freq1, rule_interval = interval1,
                            recurrenceEnd = recEnd1, daysOfTheWeek = None\<rparr>]\<rparr>)"
    by blast
  from SetRecurrence_run_success [OF second] f1 obtain freq recEnd where
    freq: "parseFrequency frequency2 = Some freq"
    and recEnd: "recurrenceEndOf df endCount2 endDate2 = Inr recEnd"
    and f2: "findReminder store2 list reminder =
             Inr (target0\<lparr>recurrenceRules :=
                    Some [\<lparr>rule_frequency = freq, rule_interval = interval2,
                            recurrenceEnd = recEnd, daysOfTheWeek = None\<rparr>]\<rparr>)"
    by auto
  let ?target2 = "target0\<lparr>recurrenceRules :=
                    Some [\<lparr>rule_frequency = freq, rule_interval = interval2,
                            recurrenceEnd = recEnd, daysOfTheWeek = None\<rparr>]\<rparr>"
  have rules: "rulesOf ?target2 = [\<lparr>rule_frequency = freq, rule_interval = interval2,
                            recurrenceEnd = recEnd, daysOfTheWeek = None\<rparr>]"
    by (simp add: rulesOf_def)
  have ident: "calendarItemIdentifier ?target2 = calendarItemIdentifier target0" by simp
  from f0 f2 ident freq recEnd rules show ?thesis by blast
qed

text \<open>
  Claim C2, on the example store: the reminder starts with two rules; the second call
  (yearly, until a date) is the only rule left.
\<close>

theorem set_recurrence_twice_witness:
  "SetRecurrence_run exampleFormatter exampleStore ''Work'' ''Ship report'' ''weekly'' 2
       (Some 5) None
     = (Inr (OutSuccess \<lparr>success = True,
                          message = MsgRecurrenceSet ''Ship report'' (EveryN 2 Weekly)\<rparr>),
        storeAfter (shipReport\<lparr>recurrenceRules := Some [weeklyRule]\<rparr>)) \<and>
   SetRecurrence_run exampleFormatter
       (storeAfter (shipReport\<lparr>recurrenceRules := Some [weeklyRule]\<rparr>))
       ''Work'' ''Ship report'' ''Yearly'' 1 None (Some ''2024-03-16 18:30'')
     = (Inr (OutSuccess \<lparr>success = True,
                          message = MsgRecurrenceSet ''Ship report'' (Every Yearly)\<rparr>),
        storeAfter (shipReport\<lparr>recurrenceRules := Some [yearlyRule]\<rparr>)) \<and>
   (\<exists>target2.
      findReminder (storeAfter (shipReport\<lparr>recurrenceRules := Some [yearlyRule]\<rparr>))
        ''Work'' ''Ship report'' = Inr target2 \<and>
      rulesOf target2 = [yearlyRule])"
proof -
  have h1: "SetRecurrence_run exampleFormatter exampleStore ''Work'' ''Ship report'' ''weekly'' 2
       (Some 5) None
     = (Inr (OutSuccess \<lparr>success = True,
                          message = MsgRecurrenceSet ''Ship report'' (EveryN 2 Weekly)\<rparr>),
        storeAfter (shipReport\<lparr>recurrenceRules := Some [weeklyRule]\<rparr>))"
    by (simp add: SetRecurrence_run_def store_defs loop_defs storeAfter_def frequency_defs
          recurrenceEndOf_def weeklyRule_def)
  have h2: "SetRecurrence_run exampleFormatter
       (storeAfter (shipReport\<lparr>recurrenceRules := Some [weeklyRule]\<rparr>))
       ''Work'' ''Ship report'' ''Yearly'' 1 None (Some ''2024-03-16 18:30'')
     = (Inr (OutSuccess \<lparr>success = True,
                          message = MsgRecurrenceSet ''Ship report'' (Every Yearly)\<rparr>),
        storeAfter (shipReport\<lparr>recurrenceRules := Some [yearlyRule]\<rparr>))"
    by (simp add: SetRecurrence_run_def store_defs loop_defs storeAfter_def frequency_defs
          recurrenceEndOf_def weeklyRule_def yearlyRule_def)
  have f: "parseFrequency ''Yearly'' = Some Yearly"
    by (simp add: frequency_defs)
  have e: "recurrenceEndOf exampleFormatter None (Some ''2024-03-16 18:30'')
           = Inr (Some \<lparr>end_endDate = Some 200, occurrenceCount = 0\<rparr>)"
    by (simp add: recurrenceEndOf_def parseDate_def exampleFormatter_def)
  from set_recurrence_twice [OF h1 h2] f e h1 h2 show ?thesis
    by (auto simp: yearlyRule_def)
qed

text \<open>
  Claim C3. A successful \<open>clear-location\<close> removes exactly the alarms that carry a
  structured location; the time alarms of the reminder are the same list as before, the
  serialized reminder has \<open>hasLocation = false\<close> and no location, and a following
  \<open>get-location\<close> answers that no location is set.
\<close>

theorem clear_location_keeps_time_alarms:
  assumes run: "ClearLocation_run store list reminder = (Inr out, store')"
  shows "\<exists>target target'.
           findReminder store list reminder = Inr target \<and>
           findReminder store' list reminder = Inr target' \<and>
           calendarItemIdentifier target' = calendarItemIdentifier target \<and>
           alarmsOf target' = filter (\<lambda>a. \<not> isLocationAlarm a) (alarmsOf target) \<and>
           filter isTimeAlarm (alarmsOf target') = filter isTimeAlarm (alarmsOf target) \<and>
           hasLocation (toOutput df target') = False \<and>
           location (toOutput df target') = None \<and>
           GetLocation_run df store' list reminder =
             (Inr (OutSuccess \<lparr>success = True, message = MsgNoLocation\<rparr>), store')"
proof -
  from ClearLocation_run_success [OF run] obtain target where
    found: "findReminder store list reminder = Inr target"
    and granted: "accessGranted store'"
    and found': "findReminder store' list reminder =
             Inr (target\<lparr>alarms :=
                    map_option (filter (\<lambda>a. structuredLocation a = None)) (alarms target)\<rparr>)"
    by blast
  let ?target' = "target\<lparr>alarms :=
                    map_option (filter (\<lambda>a. structuredLocation a = None)) (alarms target)\<rparr>"
  have al: "alarmsOf ?target' = filter (\<lambda>a. \<not> isLocationAlarm a) (alarmsOf target)"
    by (cases "alarms target") (simp_all add: alarmsOf_def isLocationAlarm_def)
  have timed: "filter isTimeAlarm (alarmsOf ?target') = filter isTimeAlarm (alarmsOf target)"
    unfolding al by (auto simp: isTimeAlarm_def isLocationAlarm_def intro: filter_cong)
  have loc: "(case alarms ?target' of None \<Rightarrow> (False, None) | Some as \<Rightarrow> locationOfAlarms as)
             = (False, None)"
    by (cases "alarms target") (simp_all add: locationOfAlarms_no_location)
  have hl: "hasLocation (toOutput df ?target') = False"
    and l: "location (toOutput df ?target') = None"
    using loc by (simp_all add: toOutput_def Let_def)
  have get: "GetLocation_run df store' list reminder =
             (Inr (OutSuccess \<lparr>success = True, message = MsgNoLocation\<rparr>), store')"
    using granted found' l by (simp add: GetLocation_run_def requestAccess_def outputJSON_def)
  have ident: "calendarItemIdentifier ?target' = calendarItemIdentifier target" by simp
  from found found' ident al timed hl l get show ?thesis by blast
qed

text \<open>
  Claim C3, on the example store: the reminder has one location alarm between two time
  alarms; both time alarms survive and the location is gone.
\<close>

theorem clear_location_keeps_time_alarms_witness:
  "ClearLocation_run exampleStore ''Work'' ''Ship report''
     = (Inr (OutSuccess \<lparr>success = True, message = MsgLocationCleared ''Ship report''\<rparr>),
        storeAfter (shipReport\<lparr>alarms :=
                      Some [EKAlarm_absoluteDate 50, EKAlarm_absoluteDate 60]\<rparr>)) \<and>
   filter isLocationAlarm (alarmsOf shipReport) = [officeAlarm] \<and>
   filter isTimeAlarm (alarmsOf shipReport) = [EKAlarm_absoluteDate 50, EKAlarm_absoluteDate 60] \<and>
   hasLocation (toOutput exampleFormatter shipReport) \<and>
   (\<exists>target'.
      findReminder
        (storeAfter (shipReport\<lparr>alarms :=
                       Some [EKAlarm_absoluteDate 50, EKAlarm_absoluteDate 60]\<rparr>))
        ''Work'' ''Ship report'' = Inr target' \<and>
      filter isTimeAlarm (alarmsOf target') = [EKAlarm_absoluteDate 50, EKAlarm_absoluteDate 60] \<and>
      hasLocation (toOutput exampleFormatter target') = False) \<and>
   GetLocation_run exampleFormatter
     (storeAfter (shipReport\<lparr>alarms :=
                    Some [EKAlarm_absoluteDate 50, EKAlarm_absoluteDate 60]\<rparr>))
     ''Work'' ''Ship report''
     = (Inr (OutSuccess \<lparr>success = True, message = MsgNoLocation\<rparr>),
        storeAfter (shipReport\<lparr>alarms :=
                      Some [EKAlarm_absoluteDate 50, EKAlarm_absoluteDate 60]\<rparr>))"
proof -
  have h: "ClearLocation_run exampleStore ''Work'' ''Ship report''
     = (Inr (OutSuccess \<lparr>success = True, message = MsgLocationCleared ''Ship report''\<rparr>),
        storeAfter (shipReport\<lparr>alarms :=
                      Some [EKAlarm_absoluteDate 50, EKAlarm_absoluteDate 60]\<rparr>))"
    by (simp add: ClearLocation_run_def store_defs loop_defs storeAfter_def)
  have before: "filter isLocationAlarm (alarmsOf shipReport) = [officeAlarm]"
    "filter isTimeAlarm (alarmsOf shipReport) = [EKAlarm_absoluteDate 50, EKAlarm_absoluteDate 60]"
    "hasLocation (toOutput exampleFormatter shipReport)"
    by (simp_all add: alarmsOf_def isLocationAlarm_def isTimeAlarm_def shipReport_def
          officeAlarm_def EKAlarm_absoluteDate_def toOutput_def Let_def)
  from clear_location_keeps_time_alarms [OF h, of exampleFormatter] h before show ?thesis
    by (auto simp: store_defs storeAfter_def)
qed

text \<open>
  Claim C4. \<open>findReminder\<close> takes the first list whose name equals the requested name and,
  among that list's reminders (completed ones included), the first whose title equals the
  requested title. A success returns a reminder with that title, at the first matching
  position of the first matching list; no list of that name gives \<open>ListNotFound\<close>; a list
  without such a reminder gives \<open>ReminderNotFound\<close>; the first matching reminder is
  returned whether it is completed or not.
\<close>

theorem findReminder_first_match:
  fixes store :: EKEventStore
  defines "cs \<equiv> calendars store" and "rs \<equiv> reminders store"
  shows
    "(findReminder store l t = Inr r \<longrightarrow>
        title r = Some t \<and>
        (\<exists>i j. i < length cs \<and> cal_title (cs ! i) = l \<and> (\<forall>i' < i. cal_title (cs ! i') \<noteq> l) \<and>
               j < length rs \<and> rs ! j = r \<and> calendar r = calendarIdentifier (cs ! i) \<and>
               (\<forall>j' < j. \<not> (calendar (rs ! j') = calendarIdentifier (cs ! i) \<and>
                              title (rs ! j') = Some t)))) \<and>
     ((\<forall>c \<in> set cs. cal_title c \<noteq> lB) \<longrightarrow> findReminder store lB tB = Inl (ListNotFound lB)) \<and>
     (iC < length cs \<and> cal_title (cs ! iC) = lC \<and> (\<forall>i' < iC. cal_title (cs ! i') \<noteq> lC) \<and>
      \<not> fetchReturnsNil store \<and>
      (\<forall>x \<in> set rs. \<not> (calendar x = calendarIdentifier (cs ! iC) \<and> title x = Some tC))
        \<longrightarrow> findReminder store lC tC = Inl (ReminderNotFound tC)) \<and>
     (iD < length cs \<and> cal_title (cs ! iD) = lD \<and> (\<forall>i' < iD. cal_title (cs ! i') \<noteq> lD) \<and>
      \<not> fetchReturnsNil store \<and>
      jD < length rs \<and> calendar (rs ! jD) = calendarIdentifier (cs ! iD) \<and>
      title (rs ! jD) = Some tD \<and> isCompleted (rs ! jD) = completed \<and>
      (\<forall>j' < jD. \<not> (calendar (rs ! j') = calendarIdentifier (cs ! iD) \<and>
                      title (rs ! j') = Some tD))
        \<longrightarrow> findReminder store lD tD = Inr (rs ! jD))"
proof (intro conjI impI)
  assume a: "findReminder store l t = Inr r"
  then obtain cal where
    cal: "find (\<lambda>c. cal_title c = l) cs = Some cal"
    and fr: "find (\<lambda>x. calendar x = calendarIdentifier cal \<and> title x = Some t) rs = Some r"
    unfolding findReminder_Inr_iff cs_def rs_def by blast
  from fr show "title r = Some t" by (auto simp: find_Some_iff)
  from cal obtain i where i: "i < length cs" "cs ! i = cal" "cal_title cal = l"
      "\<forall>i' < i. cal_title (cs ! i') \<noteq> l"
    unfolding find_first_index by blast
  from fr obtain j where j: "j < length rs" "rs ! j = r" "calendar r = calendarIdentifier cal"
      "\<forall>j' < j. \<not> (calendar (rs ! j') = calendarIdentifier cal \<and> title (rs ! j') = Some t)"
    unfolding find_first_index by blast
  from i j show "\<exists>i j. i < length cs \<and> cal_title (cs ! i) = l \<and> (\<forall>i' < i. cal_title (cs ! i') \<noteq> l) \<and>
               j < length rs \<and> rs ! j = r \<and> calendar r = calendarIdentifier (cs ! i) \<and>
               (\<forall>j' < j. \<not> (calendar (rs ! j') = calendarIdentifier (cs ! i) \<and>
                              title (rs ! j') = Some t))"
    by blast
next
  assume "\<forall>c \<in> set cs. cal_title c \<noteq> lB"
  then have "find (\<lambda>c. cal_title c = lB) cs = None" by (simp add: find_None_iff)
  then show "findReminder store lB tB = Inl (ListNotFound lB)"
    by (simp add: findReminder_def findList_def cs_def)
next
  assume a: "iC < length cs \<and> cal_title (cs ! iC) = lC \<and> (\<forall>i' < iC. cal_title (cs ! i') \<noteq> lC) \<and>
      \<not> fetchReturnsNil store \<and>
      (\<forall>x \<in> set rs. \<not> (calendar x = calendarIdentifier (cs ! iC) \<and> title x = Some tC))"
  then have cal: "find (\<lambda>c. cal_title c = lC) cs = Some (cs ! iC)"
    unfolding find_first_index by blast
  from a have "find (\<lambda>x. calendar x = calendarIdentifier (cs ! iC) \<and> title x = Some tC) rs = None"
    by (simp add: find_None_iff)
  with cal a show "findReminder store lC tC = Inl (ReminderNotFound tC)"
    by (simp add: findReminder_def findList_def fetchReminders_def find_filter cs_def rs_def)
next
  assume a: "iD < length cs \<and> cal_title (cs ! iD) = lD \<and> (\<forall>i' < iD. cal_title (cs ! i') \<noteq> lD) \<and>
      \<not> fetchReturnsNil store \<and>
      jD < length rs \<and> calendar (rs ! jD) = calendarIdentifier (cs ! iD) \<and>
      title (rs ! jD) = Some tD \<and> isCompleted (rs ! jD) = completed \<and>
      (\<forall>j' < jD. \<not> (calendar (rs ! j') = calendarIdentifier (cs ! iD) \<and>
                      title (rs ! j') = Some tD))"
  then have cal: "find (\<lambda>c. cal_title c = lD) cs = Some (cs ! iD)"
    unfolding find_first_index by blast
  from a have "find (\<lambda>x. calendar x = calendarIdentifier (cs ! iD) \<and> title x = Some tD) rs
               = Some (rs ! jD)"
    unfolding find_first_index by blast
  with cal a show "findReminder store lD tD = Inr (rs ! jD)"
    unfolding findReminder_Inr_iff cs_def rs_def by blast
qed

text \<open>
  Claim C4, on the example store: an open reminder and a completed one are both resolved,
  an unknown list and an unknown title give the two errors.
\<close>

theorem findReminder_first_match_witness:
  "findReminder exampleStore ''Work'' ''Ship report'' = Inr shipReport \<and>
   title shipReport = Some ''Ship report'' \<and>
   findReminder exampleStore ''Home'' ''Ship report'' = Inl (ListNotFound ''Home'') \<and>
   findReminder exampleStore ''Backlog'' ''Ship report'' = Inl (ReminderNotFound ''Ship report'') \<and>
   isCompleted oldTask \<and>
   findReminder exampleStore ''Work'' ''Old task'' = Inr oldTask"
proof -
  have a: "findReminder exampleStore ''Work'' ''Ship report'' = Inr shipReport"
    by (simp add: store_defs)
  have b: "\<forall>c \<in> set (calendars exampleStore). cal_title c \<noteq> ''Home''"
    by (simp add: exampleStore_def)
  have c: "1 < length (calendars exampleStore) \<and> cal_title (calendars exampleStore ! 1) = ''Backlog'' \<and>
      (\<forall>i' < 1. cal_title (calendars exampleStore ! i') \<noteq> ''Backlog'') \<and>
      \<not> fetchReturnsNil exampleStore \<and>
      (\<forall>x \<in> set (reminders exampleStore).
         \<not> (calendar x = calendarIdentifier (calendars exampleStore ! 1) \<and>
            title x = Some ''Ship report''))"
    by (simp add: exampleStore_def shipReport_def oldTask_def)
  have d: "0 < length (calendars exampleStore) \<and> cal_title (calendars exampleStore ! 0) = ''Work'' \<and>
      (\<forall>i' < 0. cal_title (calendars exampleStore ! i') \<noteq> ''Work'') \<and>
      \<not> fetchReturnsNil exampleStore \<and>
      0 < length (reminders exampleStore) \<and>
      calendar (reminders exampleStore ! 0) = calendarIdentifier (calendars exampleStore ! 0) \<and>
      title (reminders exampleStore ! 0) = Some ''Old task'' \<and>
      isCompleted (reminders exampleStore ! 0) = True \<and>
      (\<forall>j' < 0. \<not> (calendar (reminders exampleStore ! j')
                        = calendarIdentifier (calendars exampleStore ! 0) \<and>
                      title (reminders exampleStore ! j') = Some ''Old task''))"
    by (simp add: exampleStore_def shipReport_def oldTask_def)
  have r0: "reminders exampleStore ! 0 = oldTask" by (simp add: exampleStore_def)
  have compl: "isCompleted oldTask" by (simp add: oldTask_def)
  from findReminder_first_match
    [where store = exampleStore and l = "''Work''" and t = "''Ship report''" and r = shipReport
       and lB = "''Home''" and tB = "''Ship report''"
       and iC = 1 and lC = "''Backlog''" and tC = "''Ship report''"
       and iD = 0 and lD = "''Work''" and jD = 0 and tD = "''Old task''" and completed = True]
    a b c d
  have "title shipReport = Some ''Ship report''"
    and "findReminder exampleStore ''Home'' ''Ship report'' = Inl (ListNotFound ''Home'')"
    and "findReminder exampleStore ''Backlog'' ''Ship report''
          = Inl (ReminderNotFound ''Ship report'')"
    and "findReminder exampleStore ''Work'' ''Old task'' = Inr (reminders exampleStore ! 0)"
    by blast+
  with a r0 compl show ?thesis by simp
qed

text \<open>
  Claim C5, as the code has it. Only the AppleScript-backed \<open>get_reminders\<close> handler has
  the two passes. When its detailed script succeeds it answers with that script's text (the
  fixed sentence when the text is empty). When the detailed script throws and the
  names-only script then succeeds, it answers with the names alone, for the whole call, and
  the error of the detailed script is not surfaced. The helper-backed path has no second
  pass. In the helper a reminder without a due date is projected with no due date. Once
  access is granted, the list is found and the fetch succeeds: when the projected location
  of some fetched reminder has a latitude, longitude or radius that is not finite, the
  encoder throws and \<open>get-reminders\<close> fails for the whole call, the store unchanged; when
  every projected location is finite it prints one entry per fetched reminder. The
  helper-backed handler throws whenever the helper exits with a non-zero status, with the
  trimmed stderr (the trimmed stdout when that is empty) as its message; when the helper
  exits with status 0 and its text parses to an object holding an array of reminders, the
  handler answers with that array (the fixed sentence when it is empty).
\<close>

theorem get_reminders_fallback_paths:
  "(runAppleScript osascript0 (ReminderDataScript listName0 includeCompleted0) = Inr result \<longrightarrow>
      get_reminders_osascript osascript0 listName0 includeCompleted0 =
        Inr (if result \<noteq> [] then TextRaw result else TextNoReminders)) \<and>
   (runAppleScript osascript (ReminderDataScript listName includeCompleted) = Inl err \<and>
    runAppleScript osascript (ReminderNamesScript listName includeCompleted) = Inr names \<longrightarrow>
      get_reminders_osascript osascript listName includeCompleted =
        Inr (TextNames (if names \<noteq> [] then split_comma [] names else []))) \<and>
   (dueDateComponents r = None \<longrightarrow> out_dueDate (toOutput df r) = None) \<and>
   (accessGranted store \<and> findList store list = Inr cal \<and>
    fetchReminders store cal inc = Inr rs \<and>
    bad \<in> set rs \<and> location (toOutput df bad) = Some l \<and>
    \<not> (isFinite (info_latitude l) \<and> isFinite (info_longitude l) \<and> isFinite (info_radius l))
      \<longrightarrow> GetReminders_run df store list inc = (Inl EncodingError, store)) \<and>
   (accessGranted store2 \<and> findList store2 list2 = Inr cal2 \<and>
    fetchReminders store2 cal2 inc2 = Inr rs2 \<and>
    (\<forall>x \<in> set rs2. \<forall>k. location (toOutput df x) = Some k \<longrightarrow>
       isFinite (info_latitude k) \<and> isFinite (info_longitude k) \<and> isFinite (info_radius k))
      \<longrightarrow> GetReminders_run df store2 list2 inc2 =
            (Inr (OutReminders (map (toOutput df) rs2)), store2)) \<and>
   (exitCode (spawn (get_reminders_args listName3 includeCompleted3)) \<noteq> 0 \<longrightarrow>
      get_reminders_helper spawn parse listName3 includeCompleted3 =
        Inl (HelperError
              (if trim (stderr (spawn (get_reminders_args listName3 includeCompleted3))) \<noteq> []
               then trim (stderr (spawn (get_reminders_args listName3 includeCompleted3)))
               else trim (stdout (spawn (get_reminders_args listName3 includeCompleted3)))))) \<and>
   (exitCode (spawn4 (get_reminders_args listName4 includeCompleted4)) = 0 \<and>
    parse4 (trim (stdout (spawn4 (get_reminders_args listName4 includeCompleted4))))
      = Some (JObj [(js ''reminders'', JArr items)]) \<longrightarrow>
      get_reminders_helper spawn4 parse4 listName4 includeCompleted4 =
        Inr (if items \<noteq> [] then TextJSON (JArr items) else TextNoReminders))"
proof (intro conjI impI)
  assume "runAppleScript osascript0 (ReminderDataScript listName0 includeCompleted0) = Inr result"
  then show "get_reminders_osascript osascript0 listName0 includeCompleted0 =
        Inr (if result \<noteq> [] then TextRaw result else TextNoReminders)"
    by (simp add: get_reminders_osascript_def)
next
  assume "runAppleScript osascript (ReminderDataScript listName includeCompleted) = Inl err \<and>
    runAppleScript osascript (ReminderNamesScript listName includeCompleted) = Inr names"
  then show "get_reminders_osascript osascript listName includeCompleted =
        Inr (TextNames (if names \<noteq> [] then split_comma [] names else []))"
    by (simp add: get_reminders_osascript_def)
next
  assume "dueDateComponents r = None"
  then show "out_dueDate (toOutput df r) = None"
    by (simp add: toOutput_def Let_def)
next
  assume a: "accessGranted store \<and> findList store list = Inr cal \<and>
    fetchReminders store cal inc = Inr rs \<and>
    bad \<in> set rs \<and> location (toOutput df bad) = Some l \<and>
    \<not> (isFinite (info_latitude l) \<and> isFinite (info_longitude l) \<and> isFinite (info_radius l))"
  then have "\<not> encodableReminder (toOutput df bad)"
    by (simp add: encodableReminder_def encodableLocation_def)
  with a have "\<not> list_all encodableReminder (map (toOutput df) rs)"
    by (auto simp: list_all_iff)
  then have "outputJSON (OutReminders (map (toOutput df) rs)) = Inl EncodingError"
    by (simp add: outputJSON_def)
  with a show "GetReminders_run df store list inc = (Inl EncodingError, store)"
    by (simp add: GetReminders_run_def requestAccess_def)
next
  assume a: "accessGranted store2 \<and> findList store2 list2 = Inr cal2 \<and>
    fetchReminders store2 cal2 inc2 = Inr rs2 \<and>
    (\<forall>x \<in> set rs2. \<forall>k. location (toOutput df x) = Some k \<longrightarrow>
       isFinite (info_latitude k) \<and> isFinite (info_longitude k) \<and> isFinite (info_radius k))"
  then have "\<forall>x \<in> set rs2. encodableReminder (toOutput df x)"
    by (auto simp: encodableReminder_def encodableLocation_def split: option.splits)
  then have "list_all encodableReminder (map (toOutput df) rs2)"
    by (simp add: list_all_iff)
  then have "outputJSON (OutReminders (map (toOutput df) rs2))
             = Inr (OutReminders (map (toOutput df) rs2))"
    by (simp add: outputJSON_def)
  with a show "GetReminders_run df store2 list2 inc2 =
            (Inr (OutReminders (map (toOutput df) rs2)), store2)"
    by (simp add: GetReminders_run_def requestAccess_def)
next
  assume "exitCode (spawn (get_reminders_args listName3 includeCompleted3)) \<noteq> 0"
  then show "get_reminders_helper spawn parse listName3 includeCompleted3 =
        Inl (HelperError
              (if trim (stderr (spawn (get_reminders_args listName3 includeCompleted3))) \<noteq> []
               then trim (stderr (spawn (get_reminders_args listName3 includeCompleted3)))
               else trim (stdout (spawn (get_reminders_args listName3 includeCompleted3)))))"
    by (simp add: get_reminders_helper_def runHelper_def Let_def)
next
  assume "exitCode (spawn4 (get_reminders_args listName4 includeCompleted4)) = 0 \<and>
    parse4 (trim (stdout (spawn4 (get_reminders_args listName4 includeCompleted4))))
      = Some (JObj [(js ''reminders'', JArr items)])"
  then show "get_reminders_helper spawn4 parse4 listName4 includeCompleted4 =
        Inr (if items \<noteq> [] then TextJSON (JArr items) else TextNoReminders)"
    by (simp add: get_reminders_helper_def runHelper_def Let_def js_prop_def
          js_optional_length_def js_truthy_def)
qed

text \<open>
  Claim C5, the amended statement on examples: an osascript whose detailed script succeeds,
  one that fails on the detailed script only (its names are wrapped in Unicode white space,
  which \<open>trim\<close> strips), a list with a reminder without a due date, the same list
  with a reminder whose location has an infinite radius, a helper that exits with status 1
  and one that lists a reminder.
\<close>

theorem get_reminders_fallback_paths_witness:
  "runAppleScript detailedOsascript (ReminderDataScript (js ''Backlog'') False)
     = Inr (js ''name:Buy milk, body:missing value'') \<and>
   get_reminders_osascript detailedOsascript (js ''Backlog'') False
     = Inr (TextRaw (js ''name:Buy milk, body:missing value'')) \<and>
   runAppleScript dueDateOsascript (ReminderDataScript (js ''Backlog'') False)
     = Inl (AppleScriptError (js ''missing value'')) \<and>
   runAppleScript dueDateOsascript (ReminderNamesScript (js ''Backlog'') False)
     = Inr (js ''Buy milk, Call home'') \<and>
   get_reminders_osascript dueDateOsascript (js ''Backlog'') False
     = Inr (TextNames [js ''Buy milk'', js ''Call home'']) \<and>
   dueDateComponents buyMilk = None \<and>
   out_dueDate (toOutput exampleFormatter buyMilk) = None \<and>
   callHome \<in> set [buyMilk, callHome] \<and>
   GetReminders_run exampleFormatter backlogStore ''Backlog'' False
     = (Inl EncodingError, backlogStore) \<and>
   GetReminders_run exampleFormatter milkStore ''Backlog'' False
     = (Inr (OutReminders
              [\<lparr>out_title = ''Buy milk'', out_body = None, out_completed = False,
                out_dueDate = None, out_priority = 0, out_flagged = False,
                hasRecurrence = False, recurrence = None,
                hasLocation = False, location = None\<rparr>]), milkStore) \<and>
   exitCode (failingHelper (get_reminders_args (js ''Backlog'') False)) \<noteq> 0 \<and>
   get_reminders_helper failingHelper unparsed (js ''Backlog'') False
     = Inl (HelperError (js ''Error: invalid value'')) \<and>
   exitCode (listingHelper (get_reminders_args (js ''Backlog'') False)) = 0 \<and>
   get_reminders_helper listingHelper listingParse (js ''Backlog'') False
     = Inr (TextJSON (JArr [JObj [(js ''title'', JStr (js ''Buy milk''))]]))"
proof -
  have a0: "runAppleScript detailedOsascript (ReminderDataScript (js ''Backlog'') False)
     = Inr (js ''name:Buy milk, body:missing value'')"
    "js ''name:Buy milk, body:missing value'' \<noteq> []"
    by (simp_all add: runAppleScript_def detailedOsascript_def trim_def isSpace_def js_def)
  have f: "exitCode (listingHelper (get_reminders_args (js ''Backlog'') False)) = 0 \<and>
    listingParse (trim (stdout (listingHelper (get_reminders_args (js ''Backlog'') False))))
      = Some (JObj [(js ''reminders'', JArr [JObj [(js ''title'', JStr (js ''Buy milk''))]])])"
    by (simp add: listingHelper_def listingParse_def trim_def isSpace_def js_def)
  let ?backlog = "\<lparr>calendarIdentifier = 2, cal_title = ''Backlog''\<rparr>"
  let ?loc = "\<lparr>info_title = Some ''Everywhere'', info_latitude = Finite 35,
               info_longitude = Finite 139, info_radius = PlusInfinity,
               info_proximity = ''enter''\<rparr>"
  have a1: "runAppleScript dueDateOsascript (ReminderDataScript (js ''Backlog'') False)
     = Inl (AppleScriptError (js ''missing value''))"
    by (simp add: runAppleScript_def dueDateOsascript_def)
  have a2: "runAppleScript dueDateOsascript (ReminderNamesScript (js ''Backlog'') False)
     = Inr (js ''Buy milk, Call home'')"
    by (simp add: runAppleScript_def dueDateOsascript_def trim_def isSpace_def js_def)
  have names: "split_comma [] (js ''Buy milk, Call home'') = [js ''Buy milk'', js ''Call home'']"
    "js ''Buy milk, Call home'' \<noteq> []"
    by (simp_all add: js_def)
  have b: "dueDateComponents buyMilk = None" by (simp add: buyMilk_def)
  have c: "accessGranted backlogStore \<and> findList backlogStore ''Backlog'' = Inr ?backlog \<and>
    fetchReminders backlogStore ?backlog False = Inr [buyMilk, callHome] \<and>
    callHome \<in> set [buyMilk, callHome] \<and>
    location (toOutput exampleFormatter callHome) = Some ?loc \<and>
    \<not> (isFinite (info_latitude ?loc) \<and> isFinite (info_longitude ?loc)
       \<and> isFinite (info_radius ?loc))"
    by (simp add: store_defs backlogStore_def buyMilk_def callHome_def everywhereAlarm_def
          toOutput_def Let_def isFinite_def)
  have d: "accessGranted milkStore \<and> findList milkStore ''Backlog'' = Inr ?backlog \<and>
    fetchReminders milkStore ?backlog False = Inr [buyMilk] \<and>
    (\<forall>x \<in> set [buyMilk]. \<forall>k. location (toOutput exampleFormatter x) = Some k \<longrightarrow>
       isFinite (info_latitude k) \<and> isFinite (info_longitude k) \<and> isFinite (info_radius k))"
    by (simp add: store_defs milkStore_def buyMilk_def toOutput_def Let_def)
  have out: "map (toOutput exampleFormatter) [buyMilk] =
              [\<lparr>out_title = ''Buy milk'', out_body = None, out_completed = False,
                out_dueDate = None, out_priority = 0, out_flagged = False,
                hasRecurrence = False, recurrence = None,
                hasLocation = False, location = None\<rparr>]"
    by (simp add: toOutput_def Let_def buyMilk_def hasRecurrenceRules_def)
  have e: "exitCode (failingHelper (get_reminders_args (js ''Backlog'') False)) \<noteq> 0"
    by (simp add: failingHelper_def)
  have msg: "trim (stderr (failingHelper (get_reminders_args (js ''Backlog'') False)))
             = js ''Error: invalid value''"
    "js ''Error: invalid value'' \<noteq> []"
    by (simp_all add: failingHelper_def trim_def isSpace_def js_def)
  from get_reminders_fallback_paths
         [where ?osascript0.0 = detailedOsascript and ?listName0.0 = "js ''Backlog''"
            and ?includeCompleted0.0 = False
            and result = "js ''name:Buy milk, body:missing value''"
            and ?spawn4.0 = listingHelper and ?parse4.0 = listingParse
            and ?listName4.0 = "js ''Backlog''" and ?includeCompleted4.0 = False
            and items = "[JObj [(js ''title'', JStr (js ''Buy milk''))]]"
            and osascript = dueDateOsascript and listName = "js ''Backlog''"
            and includeCompleted = False and err = "AppleScriptError (js ''missing value'')"
            and names = "js ''Buy milk, Call home''"
            and r = buyMilk and df = exampleFormatter
            and store = backlogStore and list = "''Backlog''" and cal = ?backlog
            and inc = False and rs = "[buyMilk, callHome]" and bad = callHome and l = ?loc
            and ?store2.0 = milkStore and ?list2.0 = "''Backlog''" and ?cal2.0 = ?backlog
            and ?inc2.0 = False and ?rs2.0 = "[buyMilk]"
            and spawn = failingHelper and parse = unparsed and ?listName3.0 = "js ''Backlog''"
            and ?includeCompleted3.0 = False]
       a0 a1 a2 names b c d out e msg f
  show ?thesis by simp
qed

text \<open>
  Claim C5 as stated fails: the list Backlog holds a reminder that encodes and one whose
  projected location has an infinite radius; encoding that one item throws, and
  \<open>get-reminders\<close> throws for the whole call instead of answering with the titles.
\<close>

theorem get_reminders_no_fallback_counterexample:
  "encodableReminder (toOutput exampleFormatter buyMilk) \<and>
   info_radius (the (location (toOutput exampleFormatter callHome))) = PlusInfinity \<and>
   fetchReminders backlogStore \<lparr>calendarIdentifier = 2, cal_title = ''Backlog''\<rparr> False
     = Inr [buyMilk, callHome] \<and>
   GetReminders_run exampleFormatter backlogStore ''Backlog'' False
     = (Inl EncodingError, backlogStore)"
  by (simp add: GetReminders_run_def store_defs backlogStore_def buyMilk_def callHome_def
        everywhereAlarm_def toOutput_def Let_def hasRecurrenceRules_def outputJSON_def
        encodableReminder_def encodableLocation_def isFinite_def)

text \<open>
  Claim C6. \<open>update\<close> with none of the four optional fields prints
  \<open>success: false\<close> and leaves the store as it is, whatever the store answers to access,
  fetch or save: the check comes before all of them.
\<close>

theorem update_without_fields:
  "UpdateReminder_run df store list reminder None None None None =
     (Inr (OutSuccess \<lparr>success = False, message = MsgNoUpdateFields\<rparr>), store)"
  by (simp add: UpdateReminder_run_def)

text \<open>
  Claim C6, on a store that denies access: the answer is still \<open>success: false\<close>, not
  \<open>AccessDenied\<close>.
\<close>

theorem update_without_fields_witness:
  "UpdateReminder_run exampleFormatter (exampleStore\<lparr>accessGranted := False\<rparr>)
     ''Work'' ''Ship report'' None None None None
   = (Inr (OutSuccess \<lparr>success = False, message = MsgNoUpdateFields\<rparr>),
      exampleStore\<lparr>accessGranted := False\<rparr>)"
  by (rule update_without_fields)

text \<open>
  Claim C7, as the code has it. When access is granted, the reminder resolves and the
  lowercased frequency is none of daily, weekly, monthly, yearly, \<open>set-recurrence\<close> does not
  throw: it prints \<open>success: false\<close> with the invalid-frequency message and leaves the
  store unchanged. What \<open>set-recurrence\<close> can throw is \<open>AccessDenied\<close>, \<open>ListNotFound\<close>,
  \<open>FetchFailed\<close>, \<open>ReminderNotFound\<close>, \<open>InvalidDate\<close> (no end count, an end date that does
  not parse) and \<open>SaveFailed\<close>, each with the store unchanged.
\<close>

theorem set_recurrence_invalid_frequency:
  "(accessGranted store \<and> findReminder store list reminder = Inr target \<and>
    lowercased frequency \<notin> {''daily'', ''weekly'', ''monthly'', ''yearly''} \<longrightarrow>
      SetRecurrence_run df store list reminder frequency interval endCount endDate =
        (Inr (OutSuccess \<lparr>success = False, message = MsgInvalidFrequency frequency\<rparr>), store)) \<and>
   (fst (SetRecurrence_run df store listE reminderE frequencyE intervalE endCountE endDateE)
      = Inl e \<longrightarrow>
      snd (SetRecurrence_run df store listE reminderE frequencyE intervalE endCountE endDateE)
        = store \<and>
      (e = AccessDenied \<or> e = ListNotFound listE \<or> e = FetchFailed \<or>
       e = ReminderNotFound reminderE \<or>
       (endCountE = None \<and> (\<exists>d. endDateE = Some d \<and> date_from df d = None \<and> e = InvalidDate d)) \<or>
       (\<exists>msg. saveError store = Some msg \<and> e = SaveFailed msg)))"
proof (intro conjI impI)
  assume a: "accessGranted store \<and> findReminder store list reminder = Inr target \<and>
    lowercased frequency \<notin> {''daily'', ''weekly'', ''monthly'', ''yearly''}"
  then have "parseFrequency frequency = None" unfolding parseFrequency_None_iff by blast
  with a show "SetRecurrence_run df store list reminder frequency interval endCount endDate =
        (Inr (OutSuccess \<lparr>success = False, message = MsgInvalidFrequency frequency\<rparr>), store)"
    by (simp add: SetRecurrence_run_def requestAccess_def)
next
  assume a: "fst (SetRecurrence_run df store listE reminderE frequencyE intervalE endCountE endDateE)
      = Inl e"
  then show "snd (SetRecurrence_run df store listE reminderE frequencyE intervalE endCountE endDateE)
        = store"
    by (auto simp: SetRecurrence_run_def Let_def split: sum.splits option.splits)
  from a show "e = AccessDenied \<or> e = ListNotFound listE \<or> e = FetchFailed \<or>
       e = ReminderNotFound reminderE \<or>
       (endCountE = None \<and> (\<exists>d. endDateE = Some d \<and> date_from df d = None \<and> e = InvalidDate d)) \<or>
       (\<exists>msg. saveError store = Some msg \<and> e = SaveFailed msg)"
    by (auto simp: SetRecurrence_run_def requestAccess_def findReminder_def findList_def
          fetchReminders_def recurrenceEndOf_def parseDate_def save_def Let_def
          split: sum.splits option.splits if_splits)
qed

text \<open>
  Claim C7, the amended statement on the example store: frequency \<open>Hourly\<close> is answered
  with \<open>success: false\<close>; an end date that does not parse throws \<open>InvalidDate\<close>.
\<close>

theorem set_recurrence_invalid_frequency_witness:
  "accessGranted exampleStore \<and>
   findReminder exampleStore ''Work'' ''Ship report'' = Inr shipReport \<and>
   lowercased ''Hourly'' \<notin> {''daily'', ''weekly'', ''monthly'', ''yearly''} \<and>
   SetRecurrence_run exampleFormatter exampleStore ''Work'' ''Ship report'' ''Hourly'' 1
       None None
     = (Inr (OutSuccess \<lparr>success = False, message = MsgInvalidFrequency ''Hourly''\<rparr>),
        exampleStore) \<and>
   fst (SetRecurrence_run exampleFormatter exampleStore ''Work'' ''Ship report'' ''daily'' 1
          None (Some ''tomorrow'')) = Inl (InvalidDate ''tomorrow'') \<and>
   snd (SetRecurrence_run exampleFormatter exampleStore ''Work'' ''Ship report'' ''daily'' 1
          None (Some ''tomorrow'')) = exampleStore"
proof -
  have granted: "accessGranted exampleStore" by (simp add: exampleStore_def)
  have found: "findReminder exampleStore ''Work'' ''Ship report'' = Inr shipReport"
    by (simp add: store_defs)
  have invalid: "lowercased ''Hourly'' \<notin> {''daily'', ''weekly'', ''monthly'', ''yearly''}"
    by (simp add: lowercased_def lowercasedChar_def)
  have failed: "fst (SetRecurrence_run exampleFormatter exampleStore ''Work'' ''Ship report''
          ''daily'' 1 None (Some ''tomorrow'')) = Inl (InvalidDate ''tomorrow'')"
    by (simp add: SetRecurrence_run_def store_defs frequency_defs recurrenceEndOf_def)
  from set_recurrence_invalid_frequency
         [where store = exampleStore and list = "''Work''" and reminder = "''Ship report''"
            and target = shipReport and frequency = "''Hourly''" and df = exampleFormatter
            and interval = 1 and endCount = None and endDate = None
            and listE = "''Work''" and reminderE = "''Ship report''" and frequencyE = "''daily''"
            and intervalE = 1 and endCountE = None and endDateE = "Some ''tomorrow''"
            and e = "InvalidDate ''tomorrow''"]
       granted found invalid failed
  show ?thesis by simp
qed

text \<open>
  Claim C7 as stated fails: for frequency \<open>hourly\<close> on a reminder that resolves the command
  returns normally with a \<open>success: false\<close> output; it does not fail with an error.
\<close>

theorem set_recurrence_invalid_frequency_counterexample:
  "fst (SetRecurrence_run exampleFormatter exampleStore ''Work'' ''Ship report'' ''hourly'' 1
          None None)
     = Inr (OutSuccess \<lparr>success = False, message = MsgInvalidFrequency ''hourly''\<rparr>) \<and>
   \<not> isl (fst (SetRecurrence_run exampleFormatter exampleStore ''Work'' ''Ship report''
                 ''hourly'' 1 None None))"
  by (simp add: SetRecurrence_run_def store_defs parseFrequency_def lowercased_def
        lowercasedChar_def)

text \<open>
  Claim C8. The label reported by \<open>set-priority\<close>: 0 is "none", 1 to 3 "high", 4 to 6
  "medium", 7 to 9 "low"; in particular 7 is "low", 0 is "none" and 4 is "medium". A
  successful \<open>set-priority\<close> reports exactly this label for the priority it was given.
\<close>

theorem priority_bucketing:
  assumes "1 \<le> h" "h \<le> 3" "4 \<le> m" "m \<le> 6" "7 \<le> w" "w \<le> 9"
  shows "priorityLabel 0 = LabelNone \<and> priorityLabel h = LabelHigh \<and>
         priorityLabel m = LabelMedium \<and> priorityLabel w = LabelLow \<and>
         priorityLabel 7 = LabelLow \<and> priorityLabel 4 = LabelMedium \<and>
         (\<forall>out store'. SetPriority_run store list reminder prio = (Inr out, store') \<longrightarrow>
            out = OutSuccess \<lparr>success = True,
                              message = MsgPrioritySet reminder (priorityLabel prio)\<rparr>)"
  using assms by (auto simp: priorityLabel_def SetPriority_run_def split: sum.splits)

text \<open>
  Claim C8, at priorities 2, 5 and 8, and \<open>set-priority\<close> with 7 on the example store.
\<close>

theorem priority_bucketing_witness:
  "(1::int) \<le> 2 \<and> (2::int) \<le> 3 \<and> (4::int) \<le> 5 \<and> (5::int) \<le> 6 \<and> (7::int) \<le> 8 \<and> (8::int) \<le> 9 \<and>
   priorityLabel 0 = LabelNone \<and> priorityLabel 2 = LabelHigh \<and>
   priorityLabel 5 = LabelMedium \<and> priorityLabel 8 = LabelLow \<and>
   priorityLabel 7 = LabelLow \<and> priorityLabel 4 = LabelMedium \<and>
   SetPriority_run exampleStore ''Work'' ''Ship report'' 7
     = (Inr (OutSuccess \<lparr>success = True,
                          message = MsgPrioritySet ''Ship report'' LabelLow\<rparr>),
        storeAfter (shipReport\<lparr>priority := 7\<rparr>))"
proof -
  have run: "SetPriority_run exampleStore ''Work'' ''Ship report'' 7
     = (Inr (OutSuccess \<lparr>success = True,
                          message = MsgPrioritySet ''Ship report'' (priorityLabel 7)\<rparr>),
        storeAfter (shipReport\<lparr>priority := 7\<rparr>))"
    by (simp add: SetPriority_run_def store_defs storeAfter_def)
  have h: "(1::int) \<le> 2" "(2::int) \<le> 3" "(4::int) \<le> 5" "(5::int) \<le> 6" "(7::int) \<le> 8" "(8::int) \<le> 9"
    by simp_all
  from priority_bucketing [OF h, of exampleStore "''Work''" "''Ship report''" 7] run h
  show ?thesis by simp
qed

text \<open>
  Claim C9. With an end count supplied, the recurrence end of \<open>set-recurrence\<close> is the
  occurrence count, the end date argument has no influence on the outcome or the store, and
  the command never throws \<open>InvalidDate\<close>.
\<close>

theorem end_count_takes_precedence:
  "recurrenceEndOf df (Some n) endDate = Inr (Some \<lparr>end_endDate = None, occurrenceCount = n\<rparr>) \<and>
   SetRecurrence_run df store list reminder frequency interval (Some n) endDate =
     SetRecurrence_run df store list reminder frequency interval (Some n) None \<and>
   fst (SetRecurrence_run df store list reminder frequency interval (Some n) endDate)
     \<noteq> Inl (InvalidDate s)"
proof (intro conjI)
  show e: "recurrenceEndOf df (Some n) endDate =
        Inr (Some \<lparr>end_endDate = None, occurrenceCount = n\<rparr>)"
    by (simp add: recurrenceEndOf_def)
  show "SetRecurrence_run df store list reminder frequency interval (Some n) endDate =
     SetRecurrence_run df store list reminder frequency interval (Some n) None"
    unfolding SetRecurrence_run_def recurrenceEndOf_count ..
  show "fst (SetRecurrence_run df store list reminder frequency interval (Some n) endDate)
     \<noteq> Inl (InvalidDate s)"
    by (auto simp: SetRecurrence_run_def e requestAccess_def findReminder_def findList_def
          fetchReminders_def save_def Let_def
          split: sum.splits option.splits if_splits)
qed

text \<open>
  Claim C9, on the example store: an end count of 5 with an end date that does not parse
  succeeds and stores the count.
\<close>

theorem end_count_takes_precedence_witness:
  "date_from exampleFormatter ''not a date'' = None \<and>
   recurrenceEndOf exampleFormatter (Some 5) (Some ''not a date'')
     = Inr (Some \<lparr>end_endDate = None, occurrenceCount = 5\<rparr>) \<and>
   SetRecurrence_run exampleFormatter exampleStore ''Work'' ''Ship report'' ''weekly'' 2
       (Some 5) (Some ''not a date'')
     = (Inr (OutSuccess \<lparr>success = True,
                          message = MsgRecurrenceSet ''Ship report'' (EveryN 2 Weekly)\<rparr>),
        storeAfter (shipReport\<lparr>recurrenceRules := Some [weeklyRule]\<rparr>)) \<and>
   fst (SetRecurrence_run exampleFormatter exampleStore ''Work'' ''Ship report'' ''weekly'' 2
          (Some 5) (Some ''not a date'')) \<noteq> Inl (InvalidDate ''not a date'')"
proof -
  have bad: "date_from exampleFormatter ''not a date'' = None"
    by (simp add: exampleFormatter_def)
  have run: "SetRecurrence_run exampleFormatter exampleStore ''Work'' ''Ship report'' ''weekly'' 2
       (Some 5) None
     = (Inr (OutSuccess \<lparr>success = True,
                          message = MsgRecurrenceSet ''Ship report'' (EveryN 2 Weekly)\<rparr>),
        storeAfter (shipReport\<lparr>recurrenceRules := Some [weeklyRule]\<rparr>))"
    by (simp add: SetRecurrence_run_def store_defs loop_defs storeAfter_def frequency_defs
          recurrenceEndOf_def weeklyRule_def)
  from end_count_takes_precedence
         [of exampleFormatter 5 "Some ''not a date''" exampleStore "''Work''" "''Ship report''"
             "''weekly''" 2 "''not a date''"]
       bad run
  show ?thesis by simp
qed

text \<open>
  Claim C10. \<open>update\<close> with a new due date that does not parse always throws and leaves
  the store as it was, whatever other fields are supplied: the date is parsed after access
  and resolution and before \<open>save\<close>, so the error is \<open>InvalidDate\<close> of that text as soon as
  access is granted and the reminder resolves, and the access or resolution error
  otherwise. The fields are applied to the fetched reminder in the order name, body,
  appended text, due date: with all four supplied and a date that parses, what is saved has
  the new body followed by a line break and the appended text.
\<close>

theorem update_invalid_date_atomic:
  "(date_from df dueDateStr = None \<longrightarrow>
      UpdateReminder_run df store list reminder newName newBody appendBody (Some dueDateStr) =
        (Inl (if \<not> accessGranted store then AccessDenied
              else case findReminder store list reminder of
                     Inl e \<Rightarrow> e
                   | Inr target \<Rightarrow> InvalidDate dueDateStr),
         store)) \<and>
   (date_from df goodStr = Some d \<and> accessGranted store \<and>
    findReminder store list reminder = Inr target \<longrightarrow>
      UpdateReminder_run df store list reminder (Some name) (Some body) (Some appended)
        (Some goodStr) =
        (case save store
                (target\<lparr>title := Some name,
                        reminder_notes := Some (body @ [CHR 0x0A] @ appended),
                        dueDateComponents := Some (dateToComponents d)\<rparr>) of
           Inl e \<Rightarrow> (Inl e, store)
         | Inr store' \<Rightarrow>
             (Inr (OutSuccess \<lparr>success = True, message = MsgUpdated reminder\<rparr>), store')))"
  by (auto simp: UpdateReminder_run_def parseDate_def requestAccess_def Let_def
           split: sum.splits)

text \<open>
  Claim C10, on the example store: a new name, a new body and an appended text together
  with an unparsable date throw \<open>InvalidDate\<close> and leave the store as it was; with a date
  that parses all four fields are saved.
\<close>

theorem update_invalid_date_atomic_witness:
  "date_from exampleFormatter ''tomorrow'' = None \<and>
   accessGranted exampleStore \<and>
   findReminder exampleStore ''Work'' ''Ship report'' = Inr shipReport \<and>
   UpdateReminder_run exampleFormatter exampleStore ''Work'' ''Ship report''
       (Some ''Ship it'') (Some ''draft'') (Some ''appendix'') (Some ''tomorrow'')
     = (Inl (InvalidDate ''tomorrow''), exampleStore) \<and>
   date_from exampleFormatter ''2024-03-15 09:00'' = Some 100 \<and>
   UpdateReminder_run exampleFormatter exampleStore ''Work'' ''Ship report''
       (Some ''Ship it'') (Some ''draft'') (Some ''appendix'') (Some ''2024-03-15 09:00'')
     = (Inr (OutSuccess \<lparr>success = True, message = MsgUpdated ''Ship report''\<rparr>),
        storeAfter (shipReport\<lparr>title := Some ''Ship it'',
                      reminder_notes := Some (''draft'' @ [CHR 0x0A] @ ''appendix''),
                      dueDateComponents := Some 100\<rparr>))"
proof -
  have bad: "date_from exampleFormatter ''tomorrow'' = None"
    and good: "date_from exampleFormatter ''2024-03-15 09:00'' = Some 100"
    by (simp_all add: exampleFormatter_def)
  have granted: "accessGranted exampleStore" by (simp add: exampleStore_def)
  have found: "findReminder exampleStore ''Work'' ''Ship report'' = Inr shipReport"
    by (simp add: store_defs)
  have saved: "save exampleStore
                 (shipReport\<lparr>title := Some ''Ship it'',
                      reminder_notes := Some (''draft'' @ [CHR 0x0A] @ ''appendix''),
                      dueDateComponents := Some (dateToComponents 100)\<rparr>)
               = Inr (storeAfter (shipReport\<lparr>title := Some ''Ship it'',
                      reminder_notes := Some (''draft'' @ [CHR 0x0A] @ ''appendix''),
                      dueDateComponents := Some 100\<rparr>))"
    by (simp add: store_defs storeAfter_def dateToComponents_def)
  from update_invalid_date_atomic
         [where df = exampleFormatter and dueDateStr = "''tomorrow''" and store = exampleStore
            and list = "''Work''" and reminder = "''Ship report''"
            and newName = "Some ''Ship it''" and newBody = "Some ''draft''"
            and appendBody = "Some ''appendix''"
            and goodStr = "''2024-03-15 09:00''" and d = 100 and target = shipReport
            and name = "''Ship it''" and body = "''draft''" and appended = "''appendix''"]
       bad good granted found saved
  show ?thesis by simp
qed

end
